theory Spec2Isabelle
  imports Complex_Main
begin

section \<open>The adaptive anti-bot engine (src/5.js)\<close>

text \<open>
  The engine is an Express application with three routes, \<^verbatim>\<open>/challenge\<close>,
  \<^verbatim>\<open>/verify\<close> and \<^verbatim>\<open>/protected\<close>, over four process-wide variables:
  the signing secret and its version, the map of used nonces and the map of trust
  states. Each route handler runs to completion without yielding, so a handler is a
  function from the server state to a response and the next state.

  Conventions of the embedding:
  \<^item> JavaScript numbers are IEEE doubles in the program; here they are real numbers, so
    rounding is not modelled. Timestamps (\<^verbatim>\<open>Date.now()\<close>) are integers of milliseconds.
  \<^item> Every function that calls \<^verbatim>\<open>Date.now()\<close> takes the reading as its argument
    \<open>now\<close>; a handler passes one reading to all the calls it makes.
  \<^item> Strings are byte strings. The fields \<^verbatim>\<open>fingerprintHash\<close>, \<^verbatim>\<open>nonce\<close>,
    \<^verbatim>\<open>counter\<close> and \<^verbatim>\<open>hash\<close> of a JSON body are \<open>None\<close> when the body does not have
    them (the handler reads \<^verbatim>\<open>undefined\<close>) and a JSON value otherwise. The
    \<^verbatim>\<open>payload\<close> of a \<^verbatim>\<open>/protected\<close> body is an object with the four fields of a
    token, its \<^verbatim>\<open>signature\<close> a string.
  \<^item> What Node's \<^verbatim>\<open>crypto\<close> module, \<^verbatim>\<open>JSON.stringify\<close> and the conversion of a
    number to a string compute is not part of the repository: they are fields of a record the
    handlers take as a parameter, and the fresh random bytes of a handler are an argument.
  \<^item> An exception that a handler does not catch is the response \<open>Threw\<close>.
  \<^item> The rate limiter runs before the handlers; the model is of the requests it lets
    through.
\<close>

subsection \<open>Library primitives\<close>

datatype js_error = RangeError | TypeError

record 'p node_lib =
  sha256_hex :: "string \<Rightarrow> string"
  hmac_sha256_hex :: "string \<Rightarrow> string \<Rightarrow> string"
  JSON_stringify :: "'p \<Rightarrow> string"
  Number_toString :: "real \<Rightarrow> string"

text \<open>\<^verbatim>\<open>crypto.timingSafeEqual\<close> throws a RangeError when its two buffers differ in
  length, and compares them otherwise.\<close>

definition timingSafeEqual :: "string \<Rightarrow> string \<Rightarrow> js_error + bool" where
  "timingSafeEqual a b = (if length a \<noteq> length b then Inl RangeError else Inr (a = b))"

text \<open>\<^verbatim>\<open>s.startsWith(p)\<close>.\<close>

definition startsWith :: "string \<Rightarrow> string \<Rightarrow> bool" where
  "startsWith s p = (take (length p) s = p)"

text \<open>\<^verbatim>\<open>/p/i.test(s)\<close> for a pattern \<open>p\<close> of lower-case ASCII letters: some
  position of \<open>s\<close> starts with \<open>p\<close>, letters compared without case.\<close>

definition toLower :: "char \<Rightarrow> char" where
  "toLower c =
     (case map_of (zip ''ABCDEFGHIJKLMNOPQRSTUVWXYZ'' ''abcdefghijklmnopqrstuvwxyz'') c of
        None \<Rightarrow> c
      | Some d \<Rightarrow> d)"

fun includes_at_some :: "string \<Rightarrow> string \<Rightarrow> bool" where
  "includes_at_some p [] = (p = [])"
| "includes_at_some p (c # cs) = (startsWith (c # cs) p \<or> includes_at_some p cs)"

definition test_i :: "string \<Rightarrow> string \<Rightarrow> bool" where
  "test_i p s = includes_at_some p (map toLower s)"

text \<open>The truth value JavaScript gives a string that may be missing (a header, the
  signature of a token): false when it is missing or empty.\<close>

definition falsy :: "string option \<Rightarrow> bool" where
  "falsy x = (x = None \<or> x = Some [])"

definition str :: "string option \<Rightarrow> string" where
  "str x = (case x of None \<Rightarrow> [] | Some s \<Rightarrow> s)"

subsection \<open>JSON values\<close>

text \<open>The values \<^verbatim>\<open>express.json()\<close> puts into the fields of a body: \<^verbatim>\<open>null\<close>, a
  boolean, a number, a string, an array or a plain object. The program uses such a value as a
  key of a \<^verbatim>\<open>Map\<close>, which compares keys with \<^verbatim>\<open>SameValueZero\<close>: primitive values
  by type and value (the number 7 and the string \<^verbatim>\<open>7\<close> are two keys), arrays and objects
  by identity, two of them being the same key only when they are one object on the heap. So
  \<open>JArray\<close> and \<open>JObject\<close> carry the address the parser allocated the object at, next to
  its elements or its keys and values. Every body is parsed anew: the arrays and objects of
  two requests have different addresses, also when the two bodies are the same text. With the
  address in the value, equality of values is \<^verbatim>\<open>SameValueZero\<close>, and a map of the
  program is a map from values.\<close>

datatype js_value =
    JNull
  | JBool bool
  | JNumber real
  | JString string
  | JArray nat "js_value list"
  | JObject nat "(string \<times> js_value) list"

fun is_object :: "js_value \<Rightarrow> bool" where
  "is_object (JArray a xs) = True"
| "is_object (JObject a fs) = True"
| "is_object v = False"

text \<open>\<^verbatim>\<open>!x\<close> for a field \<open>x\<close>: true of \<^verbatim>\<open>undefined\<close>, \<^verbatim>\<open>null\<close>, \<^verbatim>\<open>false\<close>,
  zero and the empty string, and of nothing else (an empty array is truthy).\<close>

definition falsy_value :: "js_value option \<Rightarrow> bool" where
  "falsy_value x =
     (x = None \<or> x = Some JNull \<or> x = Some (JBool False) \<or> x = Some (JNumber 0)
      \<or> x = Some (JString []))"

text \<open>The value of a field that is present. The handlers read a field through
  \<open>field_value\<close> past their guard, where it is present.\<close>

definition field_value :: "js_value option \<Rightarrow> js_value" where
  "field_value x = (case x of None \<Rightarrow> JNull | Some v \<Rightarrow> v)"

text \<open>The characters of a value that is a string.\<close>

fun string_of :: "js_value \<Rightarrow> string" where
  "string_of (JString s) = s"
| "string_of v = []"

text \<open>The operator \<^verbatim>\<open>+\<close>. Both operands are converted to primitives first: an array to
  the texts of its elements joined by commas (\<^verbatim>\<open>null\<close> elements as the empty text), a
  plain object to \<^verbatim>\<open>[object Object]\<close>; an object with a key \<^verbatim>\<open>toString\<close> of its own has a
  value there that cannot be called, and the conversion throws a TypeError. If one of the
  primitives is a string the result is the concatenation of the two texts, otherwise the sum
  of the two numbers (\<^verbatim>\<open>null\<close> and \<^verbatim>\<open>false\<close> as 0, \<^verbatim>\<open>true\<close> as 1).\<close>

fun join :: "string list \<Rightarrow> string" where
  "join [] = []"
| "join [x] = x"
| "join (x # y # ys) = x @ '','' @ join (y # ys)"

fun ToString :: "'p node_lib \<Rightarrow> js_value \<Rightarrow> string" where
  "ToString L JNull = ''null''"
| "ToString L (JBool b) = (if b then ''true'' else ''false'')"
| "ToString L (JNumber r) = Number_toString L r"
| "ToString L (JString s) = s"
| "ToString L (JArray a xs) = join (map (\<lambda>x. if x = JNull then [] else ToString L x) xs)"
| "ToString L (JObject a fs) = ''[object Object]''"

fun conversion_throws :: "js_value \<Rightarrow> bool" where
  "conversion_throws (JArray a xs) = list_ex conversion_throws xs"
| "conversion_throws (JObject a fs) = (map_of fs ''toString'' \<noteq> None)"
| "conversion_throws v = False"

fun ToNumber :: "js_value \<Rightarrow> real" where
  "ToNumber (JNumber r) = r"
| "ToNumber (JBool b) = (if b then 1 else 0)"
| "ToNumber v = 0"

fun converts_to_string :: "js_value \<Rightarrow> bool" where
  "converts_to_string (JString s) = True"
| "converts_to_string (JArray a xs) = True"
| "converts_to_string (JObject a fs) = True"
| "converts_to_string v = False"

definition js_add :: "'p node_lib \<Rightarrow> js_value \<Rightarrow> js_value \<Rightarrow> js_error + js_value" where
  "js_add L a b =
     (if conversion_throws a \<or> conversion_throws b then Inl TypeError
      else if converts_to_string a \<or> converts_to_string b
      then Inr (JString (ToString L a @ ToString L b))
      else Inr (JNumber (ToNumber a + ToNumber b)))"

subsection \<open>Configuration and state\<close>

definition TOKEN_TTL :: int where
  "TOKEN_TTL = 60 * 1000"

definition NONCE_TTL :: int where
  "NONCE_TTL = 2 * 60 * 1000"

definition BASE_DIFFICULTY :: int where
  "BASE_DIFFICULTY = 3"

record trust_state =
  score :: real
  lastSeen :: int
  requestTimes :: "int list"

record server =
  SECRET :: string
  SECRET_VERSION :: int
  usedNonces :: "js_value \<rightharpoonup> int"
  trustMemory :: "js_value \<rightharpoonup> trust_state"

record token_payload =
  payload_fingerprintHash :: js_value
  payload_ip :: string
  payload_exp :: int
  payload_v :: int

record request =
  req_ip :: string
  header_user_agent :: "string option"
  body_fingerprintHash :: "js_value option"
  body_nonce :: "js_value option"
  body_counter :: "js_value option"
  body_hash :: "js_value option"
  body_payload :: "token_payload option"
  body_signature :: "string option"

text \<open>The JSON bodies the three servers send: \<^verbatim>\<open>{error}\<close>,
  \<^verbatim>\<open>{nonce, difficulty, version}\<close>, \<^verbatim>\<open>{challenge, difficulty}\<close>, \<^verbatim>\<open>{status}\<close>,
  \<^verbatim>\<open>{payload, signature}\<close>, \<^verbatim>\<open>{token, signature}\<close> and \<^verbatim>\<open>{success: true}\<close>. A
  response is a status code with a body, or the exception the handler threw.\<close>

datatype 'p body =
    ErrorBody string
  | NonceBody string int int
  | ChallengeBody string int
  | StatusBody string
  | PayloadBody 'p string
  | TokenBody 'p string
  | SuccessBody

datatype 'p response = Response nat "'p body" | Threw js_error

text \<open>The interval callback: a fresh secret, the version incremented.\<close>

definition rotateSecret :: "string \<Rightarrow> server \<Rightarrow> server" where
  "rotateSecret fresh st = st\<lparr>SECRET := fresh, SECRET_VERSION := SECRET_VERSION st + 1\<rparr>"

subsection \<open>Utilities\<close>

text \<open>\<^verbatim>\<open>sha256\<close> of a string, and of any value: the \<^verbatim>\<open>update\<close> of a hash takes a
  string (or a buffer) and throws a TypeError when it is handed a number.\<close>

definition sha256 :: "'p node_lib \<Rightarrow> string \<Rightarrow> string" where
  "sha256 L data = sha256_hex L data"

definition sha256_value :: "'p node_lib \<Rightarrow> js_value \<Rightarrow> js_error + string" where
  "sha256_value L data =
     (case data of
        JString text \<Rightarrow> Inr (sha256 L text)
      | _ \<Rightarrow> Inl TypeError)"

text \<open>\<^verbatim>\<open>sign\<close> and \<^verbatim>\<open>verifySignature\<close> read the global \<^verbatim>\<open>SECRET\<close>; it is their
  argument \<open>secret\<close> here, and every caller passes the secret of the state it runs in. The
  three servers have the same text for the two functions.\<close>

definition sign :: "'p node_lib \<Rightarrow> string \<Rightarrow> 'p \<Rightarrow> string" where
  "sign L secret payload = hmac_sha256_hex L secret (JSON_stringify L payload)"

definition verifySignature ::
  "'p node_lib \<Rightarrow> string \<Rightarrow> 'p \<Rightarrow> string \<Rightarrow> js_error + bool" where
  "verifySignature L secret payload signature =
     (let expected = sign L secret payload
      in timingSafeEqual signature expected)"

definition cleanNonces :: "int \<Rightarrow> server \<Rightarrow> server" where
  "cleanNonces now st =
     st\<lparr>usedNonces :=
          (\<lambda>nonce. case usedNonces st nonce of
                     None \<Rightarrow> None
                   | Some time \<Rightarrow> if now - time > NONCE_TTL then None else Some time)\<rparr>"

text \<open>A trust state is an object held in \<open>trustMemory\<close>; the functions that mutate
  the object they are handed are functions on its value here, and the caller stores the
  result under the fingerprint the object was found at.\<close>

definition putTrustState :: "js_value \<Rightarrow> trust_state \<Rightarrow> server \<Rightarrow> server" where
  "putTrustState fingerprint state st =
     st\<lparr>trustMemory := (trustMemory st)(fingerprint \<mapsto> state)\<rparr>"

definition getTrustState :: "int \<Rightarrow> js_value \<Rightarrow> server \<Rightarrow> trust_state \<times> server" where
  "getTrustState now fingerprint st =
     (case trustMemory st fingerprint of
        None \<Rightarrow>
          (let state = \<lparr>score = 0, lastSeen = now, requestTimes = []\<rparr>
           in (state, putTrustState fingerprint state st))
      | Some state \<Rightarrow> (state, st))"

definition decayTrust :: "int \<Rightarrow> trust_state \<Rightarrow> trust_state" where
  "decayTrust now state =
     (let delta = now - lastSeen state
      in state\<lparr>score := score state * max 0.5 (1 - real_of_int delta / 600000),
               lastSeen := now\<rparr>)"

subsection \<open>Risk engine\<close>

definition computeRisk :: "int \<Rightarrow> request \<Rightarrow> js_value \<Rightarrow> server \<Rightarrow> real \<times> server" where
  "computeRisk now req fingerprint st =
     (let (state0, st1) = getTrustState now fingerprint st;
          state1 = decayTrust now state0;
          ua = str (header_user_agent req);
          score1 = (if test_i ''headless'' ua then 0 + 0.6 else 0);
          score2 = (if test_i ''curl'' ua \<or> test_i ''wget'' ua \<or> test_i ''python'' ua
                       \<or> test_i ''axios'' ua
                    then score1 + 0.6 else score1);
          times = filter (\<lambda>t. now - t < 10000) (requestTimes state1 @ [now]);
          score3 = (if length times > 30 then score2 + 0.5 else score2);
          state2 = state1\<lparr>requestTimes := times, score := score state1 + score3\<rparr>
      in (score state2, putTrustState fingerprint state2 st1))"

subsection \<open>The handlers\<close>

text \<open>The expression both \<^verbatim>\<open>/challenge\<close> and \<^verbatim>\<open>/verify\<close> compute from a score:
  \<^verbatim>\<open>BASE_DIFFICULTY + Math.min(3, Math.floor(state.score))\<close>.\<close>

definition difficulty_of :: "real \<Rightarrow> int" where
  "difficulty_of s = BASE_DIFFICULTY + min 3 \<lfloor>s\<rfloor>"

definition post_challenge ::
  "string \<Rightarrow> int \<Rightarrow> request \<Rightarrow> server \<Rightarrow> token_payload response \<times> server" where
  "post_challenge random now req st =
     (let st1 = cleanNonces now st;
          fingerprintHash = field_value (body_fingerprintHash req)
      in if falsy_value (body_fingerprintHash req)
         then (Response 400 (ErrorBody ''Missing fingerprint''), st1)
         else
           let (state0, st2) = getTrustState now fingerprintHash st1;
               state = decayTrust now state0;
               st3 = putTrustState fingerprintHash state st2;
               difficulty = difficulty_of (score state);
               nonce = random
           in (Response 200 (NonceBody nonce difficulty (SECRET_VERSION st3)), st3))"

definition discount :: "js_value \<Rightarrow> server \<Rightarrow> server" where
  "discount fingerprint st =
     (case trustMemory st fingerprint of
        None \<Rightarrow> st
      | Some state \<Rightarrow> putTrustState fingerprint (state\<lparr>score := score state * 0.5\<rparr>) st)"

text \<open>The guard of \<^verbatim>\<open>/verify\<close>:
  \<^verbatim>\<open>!fingerprintHash || !nonce || counter === undefined || !hash\<close>.\<close>

definition malformed :: "request \<Rightarrow> bool" where
  "malformed req =
     (falsy_value (body_fingerprintHash req) \<or> falsy_value (body_nonce req)
      \<or> body_counter req = None \<or> falsy_value (body_hash req))"

text \<open>\<^verbatim>\<open>sha256(fingerprintHash + nonce + counter)\<close>: the two additions from left to
  right, then the hash of the result, or the exception one of the three throws.\<close>

definition expectedHash_of ::
  "'p node_lib \<Rightarrow> js_value \<Rightarrow> js_value \<Rightarrow> js_value \<Rightarrow> js_error + string" where
  "expectedHash_of L fingerprintHash nonce counter =
     (case js_add L fingerprintHash nonce of
        Inl e \<Rightarrow> Inl e
      | Inr s \<Rightarrow>
          (case js_add L s counter of
             Inl e \<Rightarrow> Inl e
           | Inr data \<Rightarrow> sha256_value L data))"

text \<open>\<^verbatim>\<open>/verify\<close>. Past the comparison \<^verbatim>\<open>expectedHash !== hash\<close> the field
  \<^verbatim>\<open>hash\<close> is a string, the one computed. \<^verbatim>\<open>"0".repeat(n)\<close> throws a RangeError for a
  negative \<open>n\<close>, which a score below \<open>-3\<close> would give; the handler has that branch here, and
  no state the handlers produce holds such a score.\<close>

definition post_verify ::
  "token_payload node_lib \<Rightarrow> int \<Rightarrow> request \<Rightarrow> server
     \<Rightarrow> token_payload response \<times> server" where
  "post_verify L now req st =
     (let st1 = cleanNonces now st;
          fingerprintHash = field_value (body_fingerprintHash req);
          nonce = field_value (body_nonce req);
          counter = field_value (body_counter req);
          hash = field_value (body_hash req)
      in if malformed req
         then (Response 400 (ErrorBody ''Malformed request''), st1)
         else if usedNonces st1 nonce \<noteq> None
         then (Response 403 (ErrorBody ''Replay detected''), st1)
         else
           case expectedHash_of L fingerprintHash nonce counter of
             Inl e \<Rightarrow> (Threw e, st1)
           | Inr expectedHash \<Rightarrow>
               if JString expectedHash \<noteq> hash
               then (Response 403 (ErrorBody ''Invalid PoW hash''), st1)
               else
                 let (state, st2) = getTrustState now fingerprintHash st1;
                     dynamicDifficulty = difficulty_of (score state)
                 in if dynamicDifficulty < 0
                    then (Threw RangeError, st2)
                    else if \<not> startsWith (string_of hash)
                                 (replicate (nat dynamicDifficulty) CHR ''0'')
                    then (Response 403 (ErrorBody ''PoW difficulty fail''), st2)
                    else
                      let (risk, st3) = computeRisk now req fingerprintHash st2;
                          st4 = st3\<lparr>usedNonces := (usedNonces st3)(nonce \<mapsto> now)\<rparr>
                      in if risk > 3
                         then (Response 200 (StatusBody ''shadow_throttled''), st4)
                         else if risk > 5
                         then (Response 403 (ErrorBody ''High risk entity''), st4)
                         else
                           let payload =
                                 \<lparr>payload_fingerprintHash = fingerprintHash,
                                  payload_ip = req_ip req,
                                  payload_exp = now + TOKEN_TTL,
                                  payload_v = SECRET_VERSION st4\<rparr>;
                               signature = sign L (SECRET st4) payload;
                               st5 = discount fingerprintHash st4
                           in (Response 200 (PayloadBody payload signature), st5))"

definition post_protected ::
  "token_payload node_lib \<Rightarrow> int \<Rightarrow> request \<Rightarrow> server \<Rightarrow> token_payload response" where
  "post_protected L now req st =
     (case body_payload req of
        None \<Rightarrow> Response 400 (ErrorBody ''Missing token'')
      | Some payload \<Rightarrow>
          if falsy (body_signature req)
          then Response 400 (ErrorBody ''Missing token'')
          else
            (case verifySignature L (SECRET st) payload (str (body_signature req)) of
               Inl e \<Rightarrow> Threw e
             | Inr ok \<Rightarrow>
                 if \<not> ok then Response 403 (ErrorBody ''Invalid signature'')
                 else if now > payload_exp payload
                 then Response 403 (ErrorBody ''Token expired'')
                 else if payload_ip payload \<noteq> req_ip req
                 then Response 403 (ErrorBody ''IP mismatch'')
                 else Response 200 SuccessBody))"

section \<open>The in-memory server (src/unnamed/part_001, secureAntiBot.js)\<close>

text \<open>The first variant keeps the issued challenges in a map from the challenge to its
  issue time and the used nonces in a set that is never cleaned. Its body fields are read
  without a guard, so a missing field reaches the code as \<^verbatim>\<open>undefined\<close>: it is no key
  of the challenge map, it can be a member of the nonce set, and string concatenation
  turns it into the text \<^verbatim>\<open>undefined\<close>.\<close>

definition js_string :: "string option \<Rightarrow> string" where
  "js_string x = (case x of None \<Rightarrow> ''undefined'' | Some s \<Rightarrow> s)"

definition sab_CHALLENGE_TTL :: int where
  "sab_CHALLENGE_TTL = 60000"

definition sab_TOKEN_TTL :: int where
  "sab_TOKEN_TTL = 120000"

text \<open>The \<^verbatim>\<open>signals\<close> object of a request: the user agent it reports, and whether its
  \<^verbatim>\<open>cpu\<close> and \<^verbatim>\<open>memory\<close> fields are truthy.\<close>

record signals =
  signals_ua :: "string option"
  signals_cpu :: bool
  signals_memory :: bool

record sab_token =
  token_ip :: string
  token_timestamp :: int

record sab_server =
  sab_SECRET :: string
  activeChallenges :: "string \<rightharpoonup> int"
  sab_usedNonces :: "string option set"

record sab_request =
  sab_req_ip :: string
  sab_body_challenge :: "string option"
  sab_body_nonce :: "string option"
  sab_body_hash :: "string option"
  sab_body_signals :: "signals option"
  sab_body_token :: "sab_token option"
  sab_body_signature :: "string option"

text \<open>The risk model of the first and the second variant (the same text in both).\<close>

definition computeRisk_signals :: "signals option \<Rightarrow> real" where
  "computeRisk_signals sg =
     (let ua = (case sg of None \<Rightarrow> [] | Some g \<Rightarrow> str (signals_ua g));
          cpu = (case sg of None \<Rightarrow> False | Some g \<Rightarrow> signals_cpu g);
          memory = (case sg of None \<Rightarrow> False | Some g \<Rightarrow> signals_memory g);
          score1 = (if test_i ''headless'' ua \<or> test_i ''phantom'' ua then 0 + 0.5 else 0);
          score2 = (if test_i ''curl'' ua \<or> test_i ''wget'' ua \<or> test_i ''python'' ua
                    then score1 + 0.5 else score1);
          score3 = (if cpu then score2 else score2 + 0.2);
          score4 = (if memory then score3 else score3 + 0.2)
      in score4)"

definition sab_get_challenge ::
  "string \<Rightarrow> int \<Rightarrow> sab_server \<Rightarrow> sab_token response \<times> sab_server" where
  "sab_get_challenge random now st =
     (let challenge = random;
          difficulty = 4;
          st1 = st\<lparr>activeChallenges := (activeChallenges st)(challenge \<mapsto> now)\<rparr>
      in (Response 200 (ChallengeBody challenge difficulty), st1))"

definition sab_post_verify ::
  "sab_token node_lib \<Rightarrow> int \<Rightarrow> sab_request \<Rightarrow> sab_server
     \<Rightarrow> sab_token response \<times> sab_server" where
  "sab_post_verify L now req st =
     (let ip = sab_req_ip req;
          nonce = sab_body_nonce req;
          hash = sab_body_hash req;
          sg = sab_body_signals req
      in case sab_body_challenge req of
           None \<Rightarrow> (Response 403 (ErrorBody ''Invalid challenge''), st)
         | Some challenge \<Rightarrow>
             (case activeChallenges st challenge of
                None \<Rightarrow> (Response 403 (ErrorBody ''Invalid challenge''), st)
              | Some issued \<Rightarrow>
                  if now - issued > sab_CHALLENGE_TTL
                  then (Response 403 (ErrorBody ''Challenge expired''), st)
                  else
                    let testHash = sha256 L (challenge @ js_string nonce)
                    in if \<not> (hash = Some testHash
                              \<and> startsWith testHash (replicate 4 CHR ''0''))
                       then (Response 403 (ErrorBody ''Invalid PoW''), st)
                       else if nonce \<in> sab_usedNonces st
                       then (Response 403 (ErrorBody ''Replay detected''), st)
                       else
                         let st1 = st\<lparr>sab_usedNonces := insert nonce (sab_usedNonces st),
                                       activeChallenges := (activeChallenges st)(challenge := None)\<rparr>;
                             risk = computeRisk_signals sg
                         in if risk > 0.7
                            then (Response 403 (ErrorBody ''High risk''), st1)
                            else
                              let tokenPayload = \<lparr>token_ip = ip, token_timestamp = now\<rparr>;
                                  signature = sign L (sab_SECRET st1) tokenPayload
                              in (Response 200 (TokenBody tokenPayload signature), st1)))"

text \<open>\<^verbatim>\<open>/protected\<close> has no guard on its body: with the token missing
  \<^verbatim>\<open>JSON.stringify\<close> yields \<^verbatim>\<open>undefined\<close> and the HMAC update throws a TypeError, and
  with the signature missing \<^verbatim>\<open>Buffer.from\<close> does.\<close>

definition sab_post_protected ::
  "sab_token node_lib \<Rightarrow> int \<Rightarrow> sab_request \<Rightarrow> sab_server \<Rightarrow> sab_token response" where
  "sab_post_protected L now req st =
     (case sab_body_token req of
        None \<Rightarrow> Threw TypeError
      | Some token \<Rightarrow>
          (case sab_body_signature req of
             None \<Rightarrow> Threw TypeError
           | Some signature \<Rightarrow>
               (case verifySignature L (sab_SECRET st) token signature of
                  Inl e \<Rightarrow> Threw e
                | Inr ok \<Rightarrow>
                    if \<not> ok then Response 403 (ErrorBody ''Invalid signature'')
                    else if now - token_timestamp token > sab_TOKEN_TTL
                    then Response 403 (ErrorBody ''Token expired'')
                    else if token_ip token \<noteq> sab_req_ip req
                    then Response 403 (ErrorBody ''IP mismatch'')
                    else Response 200 SuccessBody)))"

section \<open>The Redis-backed server (src/unnamed/part_002, server.js)\<close>

text \<open>The second variant keeps its state in Redis under three families of keys,
  \<^verbatim>\<open>challenge:<challenge>\<close>, \<^verbatim>\<open>nonce:<nonce>\<close> and \<^verbatim>\<open>rate:<ip>\<close>. The prefixes keep
  the families apart, so the store is three maps, each from the text after the prefix to
  the value and the time (in milliseconds) the key expires at. Redis returns a key until the
  clock is past its expiry. A handler is modelled as running without interleaving.\<close>

definition srv_CHALLENGE_TTL :: int where
  "srv_CHALLENGE_TTL = 60"

definition srv_TOKEN_TTL :: int where
  "srv_TOKEN_TTL = 120"

definition srv_BASE_DIFFICULTY :: int where
  "srv_BASE_DIFFICULTY = 4"

definition MAX_DIFFICULTY :: int where
  "MAX_DIFFICULTY = 7"

record srv_token =
  srv_token_ip :: string
  srv_token_issued :: int

record srv_server =
  srv_SECRET :: string
  challenge_keys :: "string \<rightharpoonup> string \<times> int"
  nonce_keys :: "string \<rightharpoonup> string \<times> int"
  rate_keys :: "string \<rightharpoonup> int \<times> int"

record srv_request =
  srv_req_ip :: string
  srv_body_challenge :: "string option"
  srv_body_nonce :: "string option"
  srv_body_hash :: "string option"
  srv_body_signals :: "signals option"
  srv_body_token :: "srv_token option"
  srv_body_signature :: "string option"

definition redis_get :: "int \<Rightarrow> (string \<rightharpoonup> 'v \<times> int) \<Rightarrow> string \<Rightarrow> 'v option" where
  "redis_get now keys k =
     (case keys k of
        None \<Rightarrow> None
      | Some (v, expires) \<Rightarrow> if now > expires then None else Some v)"

definition dynamicDifficulty :: "int \<Rightarrow> string \<Rightarrow> srv_server \<Rightarrow> int" where
  "dynamicDifficulty now ip st =
     (let requestCount = (case redis_get now (rate_keys st) ip of None \<Rightarrow> 0 | Some n \<Rightarrow> n);
          scaled = srv_BASE_DIFFICULTY + requestCount div 50
      in min MAX_DIFFICULTY scaled)"

definition srv_get_challenge ::
  "string \<Rightarrow> int \<Rightarrow> srv_request \<Rightarrow> srv_server \<Rightarrow> srv_token response \<times> srv_server" where
  "srv_get_challenge random now req st =
     (let ip = srv_req_ip req;
          difficulty = dynamicDifficulty now ip st;
          challenge = random;
          st1 = st\<lparr>challenge_keys :=
                    (challenge_keys st)(challenge \<mapsto> (ip, now + srv_CHALLENGE_TTL * 1000))\<rparr>
      in (Response 200 (ChallengeBody challenge difficulty), st1))"

text \<open>The two calls \<^verbatim>\<open>redis.incr\<close> and \<^verbatim>\<open>redis.expire\<close> on the rate key of an
  address.\<close>

definition incr_rate :: "int \<Rightarrow> string \<Rightarrow> srv_server \<Rightarrow> srv_server" where
  "incr_rate now ip st =
     (let n = (case redis_get now (rate_keys st) ip of None \<Rightarrow> 0 | Some n \<Rightarrow> n)
      in st\<lparr>rate_keys := (rate_keys st)(ip \<mapsto> (n + 1, now + 60 * 1000))\<rparr>)"

text \<open>In \<^verbatim>\<open>/verify\<close> the template literals turn a missing challenge or nonce into the
  text \<open>undefined\<close> in the key. With both missing the sum \<^verbatim>\<open>challenge + nonce\<close> is
  \<^verbatim>\<open>NaN\<close>, which the hash update refuses with a TypeError; with one present it is a
  string. \<^verbatim>\<open>"0".repeat\<close> throws a RangeError for a negative difficulty, which only a negative
  rate counter would give.\<close>

definition srv_post_verify ::
  "srv_token node_lib \<Rightarrow> int \<Rightarrow> srv_request \<Rightarrow> srv_server
     \<Rightarrow> srv_token response \<times> srv_server" where
  "srv_post_verify L now req st =
     (let ip = srv_req_ip req;
          challenge = srv_body_challenge req;
          nonce = srv_body_nonce req;
          hash = srv_body_hash req;
          sg = srv_body_signals req;
          storedIp = redis_get now (challenge_keys st) (js_string challenge)
      in if falsy storedIp \<or> storedIp \<noteq> Some ip
         then (Response 403 (ErrorBody ''Invalid challenge''), st)
         else
           let difficulty = dynamicDifficulty now ip st
           in if challenge = None \<and> nonce = None
              then (Threw TypeError, st)
              else
                let testHash = sha256 L (js_string challenge @ js_string nonce)
                in if hash \<noteq> Some testHash
                   then (Response 403 (ErrorBody ''Invalid PoW''), st)
                   else if difficulty < 0
                   then (Threw RangeError, st)
                   else if \<not> startsWith testHash (replicate (nat difficulty) CHR ''0'')
                   then (Response 403 (ErrorBody ''Invalid PoW''), st)
                   else if redis_get now (nonce_keys st) (js_string nonce) \<noteq> None
                   then (Response 403 (ErrorBody ''Replay detected''), st)
                   else
                     let st1 = st\<lparr>nonce_keys :=
                                      (nonce_keys st)
                                        (js_string nonce \<mapsto> (''1'', now + srv_CHALLENGE_TTL * 1000)),
                                   challenge_keys :=
                                      (challenge_keys st)(js_string challenge := None)\<rparr>;
                         risk = computeRisk_signals sg
                     in if risk > 0.7
                        then (Response 403 (ErrorBody ''High risk''), st1)
                        else
                          let tokenPayload = \<lparr>srv_token_ip = ip, srv_token_issued = now\<rparr>;
                              signature = sign L (srv_SECRET st1) tokenPayload;
                              st2 = incr_rate now ip st1
                          in (Response 200 (TokenBody tokenPayload signature), st2))"

definition srv_post_protected ::
  "srv_token node_lib \<Rightarrow> int \<Rightarrow> srv_request \<Rightarrow> srv_server \<Rightarrow> srv_token response" where
  "srv_post_protected L now req st =
     (case srv_body_token req of
        None \<Rightarrow> Threw TypeError
      | Some token \<Rightarrow>
          (case srv_body_signature req of
             None \<Rightarrow> Threw TypeError
           | Some signature \<Rightarrow>
               (case verifySignature L (srv_SECRET st) token signature of
                  Inl e \<Rightarrow> Threw e
                | Inr ok \<Rightarrow>
                    if \<not> ok then Response 403 (ErrorBody ''Invalid signature'')
                    else if now - srv_token_issued token > srv_TOKEN_TTL * 1000
                    then Response 403 (ErrorBody ''Token expired'')
                    else if srv_token_ip token \<noteq> srv_req_ip req
                    then Response 403 (ErrorBody ''IP mismatch'')
                    else Response 200 SuccessBody)))"

section \<open>Sequences of calls and example values\<close>

text \<open>A sequence of decay calls on one trust state, at the given clock readings.\<close>

fun decayCalls :: "int list \<Rightarrow> trust_state \<Rightarrow> trust_state" where
  "decayCalls [] state = state"
| "decayCalls (now # rest) state = decayCalls rest (decayTrust now state)"

text \<open>\<^verbatim>\<open>decayTrust\<close> with a rounding function \<open>fl\<close> applied where the program
  rounds a double: after the division, the subtraction and the multiplication.\<close>

definition decayTrust_rounded :: "(real \<Rightarrow> real) \<Rightarrow> int \<Rightarrow> trust_state \<Rightarrow> trust_state" where
  "decayTrust_rounded fl now state =
     (let delta = now - lastSeen state
      in state\<lparr>score := fl (score state * max 0.5 (fl (1 - fl (real_of_int delta / 600000)))),
               lastSeen := now\<rparr>)"

text \<open>The invariant of the trust ledger: no stored score is negative.\<close>

definition scores_nonneg :: "server \<Rightarrow> bool" where
  "scores_nonneg st =
     (\<forall>fingerprint state. trustMemory st fingerprint = Some state \<longrightarrow> 0 \<le> score state)"

text \<open>The \<^verbatim>\<open>difficulty\<close> field of a response, when it has one.\<close>

definition issued_difficulty :: "'p response \<Rightarrow> int option" where
  "issued_difficulty r =
     (case r of
        Response status (NonceBody nonce d version) \<Rightarrow> Some d
      | Response status (ChallengeBody c d) \<Rightarrow> Some d
      | _ \<Rightarrow> None)"

subsection \<open>Example values\<close>

text \<open>The examples below run the handlers on concrete requests. The library record they
  use returns, on the strings the examples hash and sign, the digests Node computes for
  them (SHA-256 and HMAC-SHA256 in hexadecimal, \<^verbatim>\<open>JSON.stringify\<close> of the payload), and a
  fixed string of the same length elsewhere; the handlers query it at those strings only.
  Likewise for the numbers the examples turn into strings.\<close>

definition example_nonce :: string where
  "example_nonce = ''5f2a9c0e7b1d4a3886c1e0f4d2b7a951''"

text \<open>SHA-256 of \<^verbatim>\<open>abc5f2a9c0e7b1d4a3886c1e0f4d2b7a9511405\<close>: three leading zeros.\<close>

definition example_hash3 :: string where
  "example_hash3 = ''000b85ce1c3279ff5268c5de3dff28059c7eda78dd43d2bcf98f55db22792a60''"

text \<open>SHA-256 of \<^verbatim>\<open>abc5f2a9c0e7b1d4a3886c1e0f4d2b7a951437558\<close>: six leading zeros.\<close>

definition example_hash6 :: string where
  "example_hash6 = ''000000fc0f4601104718dfe42880ae5033e13a26e545e36fa09baf0325d9c298''"

text \<open>Three more nonces, with the SHA-256 of \<^verbatim>\<open>abc\<close>, the nonce and the counters 2069,
  1943 and 2893: three leading zeros each.\<close>

definition warmup_nonce1 :: string where
  "warmup_nonce1 = ''a1b2c3d4e5f60718293a4b5c6d7e8f90''"

definition warmup_hash1 :: string where
  "warmup_hash1 = ''000a5f8f74c04c3a6d2d8777815c7b2e59c53de90999721b591955eb43b25f82''"

definition warmup_nonce2 :: string where
  "warmup_nonce2 = ''0f1e2d3c4b5a69788796a5b4c3d2e1f0''"

definition warmup_hash2 :: string where
  "warmup_hash2 = ''000bc27f7868c023a01c424d7ef9b6c5c0e589372413d7bb79cd014e308b9959''"

definition warmup_nonce3 :: string where
  "warmup_nonce3 = ''7c6b5a4918273645546372819a0b1c2d''"

definition warmup_hash3 :: string where
  "warmup_hash3 = ''000a82810727e560c46ff578ab0c86140f8ffed3d2b209525e40a092c65dd39e''"

definition example_secret :: string where
  "example_secret = ''k3y-0f-32-byt3s-f0r-th3-3xampl3!''"

definition rotated_secret :: string where
  "rotated_secret = ''an0th3r-32-byt3-k3y-aft3r-r0tat3''"

text \<open>A numeric nonce, and the SHA-256 of \<^verbatim>\<open>abc4242572\<close>: three leading zeros.\<close>

definition numeric_hash :: string where
  "numeric_hash = ''0006b7848bc669a5f13dcec328fb8e922f17c57ed2aec8414612b10be97bc957''"

definition example_payload :: token_payload where
  "example_payload =
     \<lparr>payload_fingerprintHash = JString ''abc'', payload_ip = ''203.0.113.7'',
      payload_exp = 1060000, payload_v = 1\<rparr>"

definition later_payload :: token_payload where
  "later_payload = example_payload\<lparr>payload_exp := 1180001\<rparr>"

definition replayed_payload :: token_payload where
  "replayed_payload = example_payload\<lparr>payload_exp := 1060500\<rparr>"

definition example_json :: string where
  \<open>example_json = ''{"fingerprintHash":"abc","ip":"203.0.113.7","exp":1060000,"v":1}''\<close>

definition later_json :: string where
  \<open>later_json = ''{"fingerprintHash":"abc","ip":"203.0.113.7","exp":1180001,"v":1}''\<close>

definition replayed_json :: string where
  \<open>replayed_json = ''{"fingerprintHash":"abc","ip":"203.0.113.7","exp":1060500,"v":1}''\<close>

text \<open>HMAC-SHA256 of \<open>example_json\<close> under \<open>example_secret\<close>, of \<open>later_json\<close> under
  \<open>example_secret\<close>, of \<open>example_json\<close> under \<open>rotated_secret\<close>, and of
  \<open>replayed_json\<close> under \<open>example_secret\<close>.\<close>

definition example_signature :: string where
  "example_signature = ''2a7197f1ac7c26f8b1eed5ba41ebe7d411abaf639423bb069e5a74f353655cff''"

definition later_signature :: string where
  "later_signature = ''1c1f6af26d14336081659a18c6fc17ba3bfb4d72a22f28189b3010a686ee82ce''"

definition rotated_signature :: string where
  "rotated_signature = ''7bcb98840a16503c9aa49df759a3c76f078098eaa5a86c20af411e8b24e05e7c''"

definition replayed_signature :: string where
  "replayed_signature = ''8114a83b0cf3e259098c6ecc998151d4989930fa8fe0b71e05cf9307470fadef''"

definition example_lib :: "token_payload node_lib" where
  "example_lib =
     \<lparr>sha256_hex =
        (\<lambda>data. if data = ''abc'' @ example_nonce @ ''1405'' then example_hash3
                else if data = ''abc'' @ example_nonce @ ''437558'' then example_hash6
                else if data = ''abc'' @ warmup_nonce1 @ ''2069'' then warmup_hash1
                else if data = ''abc'' @ warmup_nonce2 @ ''1943'' then warmup_hash2
                else if data = ''abc'' @ warmup_nonce3 @ ''2893'' then warmup_hash3
                else if data = ''abc'' @ ''4242'' @ ''572'' then numeric_hash
                else replicate 64 CHR ''f''),
      hmac_sha256_hex =
        (\<lambda>key data.
           if key = example_secret \<and> data = example_json then example_signature
           else if key = example_secret \<and> data = later_json then later_signature
           else if key = rotated_secret \<and> data = example_json then rotated_signature
           else if key = example_secret \<and> data = replayed_json then replayed_signature
           else replicate 64 CHR ''0''),
      JSON_stringify =
        (\<lambda>p. if p = example_payload then example_json
             else if p = later_payload then later_json
             else if p = replayed_payload then replayed_json
             else ''{}''),
      Number_toString =
        (\<lambda>r. if r = 1405 then ''1405''
             else if r = 437558 then ''437558''
             else if r = 4242 then ''4242''
             else ''0'')\<rparr>"

text \<open>A server that has just started, and a request that solves the puzzle at difficulty 3
  for the fingerprint \<^verbatim>\<open>abc\<close>.\<close>

definition example_server :: server where
  "example_server =
     \<lparr>SECRET = example_secret, SECRET_VERSION = 1,
      usedNonces = Map.empty, trustMemory = Map.empty\<rparr>"

definition example_request :: request where
  "example_request =
     \<lparr>req_ip = ''203.0.113.7'', header_user_agent = Some ''Mozilla/5.0'',
      body_fingerprintHash = Some (JString ''abc''), body_nonce = Some (JString example_nonce),
      body_counter = Some (JNumber 1405), body_hash = Some (JString example_hash3),
      body_payload = None, body_signature = None\<rparr>"

text \<open>The state the example server is in after it has answered \<open>example_request\<close> at
  time 1000000.\<close>

definition served_server :: server where
  "served_server =
     \<lparr>SECRET = example_secret, SECRET_VERSION = 1,
      usedNonces = [JString example_nonce \<mapsto> 1000000],
      trustMemory =
        [JString ''abc'' \<mapsto> \<lparr>score = 0, lastSeen = 1000000, requestTimes = [1000000]\<rparr>]\<rparr>"

text \<open>The request that presents the token of the example to \<^verbatim>\<open>/protected\<close>.\<close>

definition token_request :: request where
  "token_request =
     \<lparr>req_ip = ''203.0.113.7'', header_user_agent = Some ''Mozilla/5.0'',
      body_fingerprintHash = None, body_nonce = None, body_counter = None, body_hash = None,
      body_payload = Some example_payload, body_signature = Some example_signature\<rparr>"

text \<open>A server that holds a score of 5.5 for the fingerprint, last decayed at time
  1000000, and a request that solves the puzzle at difficulty 6.\<close>

definition suspicious_server :: server where
  "suspicious_server =
     example_server
       \<lparr>trustMemory :=
          [JString ''abc'' \<mapsto> \<lparr>score = 11 / 2, lastSeen = 1000000, requestTimes = []\<rparr>]\<rparr>"

definition hard_request :: request where
  "hard_request =
     example_request\<lparr>body_counter := Some (JNumber 437558), body_hash := Some (JString example_hash6)\<rparr>"

text \<open>The example request with its nonce in an array that the parser allocated at the
  address \<open>a\<close>, and a request with the nonce 4242, as a number or as a string, with the
  counter \<^verbatim>\<open>572\<close> that solves its puzzle.\<close>

definition array_request :: "nat \<Rightarrow> request" where
  "array_request a = example_request\<lparr>body_nonce := Some (JArray a [JString example_nonce])\<rparr>"

definition numeric_request :: "js_value \<Rightarrow> request" where
  "numeric_request nonce =
     example_request
       \<lparr>body_nonce := Some nonce, body_counter := Some (JString ''572''),
        body_hash := Some (JString numeric_hash)\<rparr>"

text \<open>A client that reports an automation tool in its user agent, and the state the
  example server is in after it has answered three requests of that client at time 1000000:
  each adds 1.2 to the score and is answered with a token, which halves it, so the score goes
  0.6, 0.9, 1.05.\<close>

definition bot_request :: "string \<Rightarrow> string \<Rightarrow> string \<Rightarrow> request" where
  "bot_request nonce counter hash =
     \<lparr>req_ip = ''203.0.113.7'',
      header_user_agent = Some ''HeadlessChrome python-requests/2.31'',
      body_fingerprintHash = Some (JString ''abc''), body_nonce = Some (JString nonce),
      body_counter = Some (JString counter), body_hash = Some (JString hash),
      body_payload = None, body_signature = None\<rparr>"

definition warmed_server1 :: server where
  "warmed_server1 =
     \<lparr>SECRET = example_secret, SECRET_VERSION = 1,
      usedNonces = [JString warmup_nonce1 \<mapsto> 1000000],
      trustMemory =
        [JString ''abc'' \<mapsto> \<lparr>score = 3 / 5, lastSeen = 1000000, requestTimes = [1000000]\<rparr>]\<rparr>"

definition warmed_server2 :: server where
  "warmed_server2 =
     \<lparr>SECRET = example_secret, SECRET_VERSION = 1,
      usedNonces = [JString warmup_nonce1 \<mapsto> 1000000, JString warmup_nonce2 \<mapsto> 1000000],
      trustMemory =
        [JString ''abc'' \<mapsto>
           \<lparr>score = 9 / 10, lastSeen = 1000000, requestTimes = [1000000, 1000000]\<rparr>]\<rparr>"

definition warmed_server :: server where
  "warmed_server =
     \<lparr>SECRET = example_secret, SECRET_VERSION = 1,
      usedNonces =
        [JString warmup_nonce1 \<mapsto> 1000000, JString warmup_nonce2 \<mapsto> 1000000, JString warmup_nonce3 \<mapsto> 1000000],
      trustMemory =
        [JString ''abc'' \<mapsto>
           \<lparr>score = 21 / 20, lastSeen = 1000000,
            requestTimes = [1000000, 1000000, 1000000]\<rparr>]\<rparr>"

text \<open>A server that holds a score of 1.05 for the fingerprint, last decayed at time 0.\<close>

definition stale_server :: server where
  "stale_server =
     example_server
       \<lparr>trustMemory :=
          [JString ''abc'' \<mapsto> \<lparr>score = 21 / 20, lastSeen = 0, requestTimes = []\<rparr>]\<rparr>"

text \<open>Example values for the two other servers: a challenge, a nonce whose SHA-256 with the
  challenge has four leading zeros, the secret (a hexadecimal string there) and the HMAC of the
  token each server issues at time 1000000.\<close>

definition example_challenge :: string where
  "example_challenge = ''9d4c1e7a2b3f4056a8179e0c5d6b2f31''"

definition example_hash4 :: string where
  "example_hash4 = ''0000540c09ca010c173e8618e6f8d5e5f589a27db33677fb637933c1d8f12716''"

definition hex_secret :: string where
  "hex_secret = ''3f9a1c5e7b2d4f60819a3c5e7b9d1f20486a8c0e2f416385a7c9eb0d2f4a6c8e''"

definition example_signals :: signals where
  "example_signals =
     \<lparr>signals_ua = Some ''Mozilla/5.0'', signals_cpu = True, signals_memory = True\<rparr>"

definition sab_example_token :: sab_token where
  "sab_example_token = \<lparr>token_ip = ''203.0.113.7'', token_timestamp = 1000000\<rparr>"

definition sab_example_signature :: string where
  "sab_example_signature = ''5649ae3301fe8d5779db900799ed31bde6ae79b5f44418ed59a37d760a2cf5a3''"

definition sab_example_lib :: "sab_token node_lib" where
  \<open>sab_example_lib =
     \<lparr>sha256_hex =
        (\<lambda>data. if data = example_challenge @ ''169435'' then example_hash4
                else replicate 64 CHR ''f''),
      hmac_sha256_hex =
        (\<lambda>key data.
           if key = hex_secret \<and> data = ''{"ip":"203.0.113.7","timestamp":1000000}''
           then sab_example_signature
           else replicate 64 CHR ''0''),
      JSON_stringify =
        (\<lambda>p. if p = sab_example_token then ''{"ip":"203.0.113.7","timestamp":1000000}''
             else ''{}''),
      Number_toString = (\<lambda>r. ''0'')\<rparr>\<close>

definition sab_example_server :: sab_server where
  "sab_example_server =
     \<lparr>sab_SECRET = hex_secret, activeChallenges = [example_challenge \<mapsto> 990000],
      sab_usedNonces = {}\<rparr>"

definition sab_example_request :: sab_request where
  "sab_example_request =
     \<lparr>sab_req_ip = ''203.0.113.7'', sab_body_challenge = Some example_challenge,
      sab_body_nonce = Some ''169435'', sab_body_hash = Some example_hash4,
      sab_body_signals = Some example_signals, sab_body_token = None,
      sab_body_signature = None\<rparr>"

definition srv_example_token :: srv_token where
  "srv_example_token = \<lparr>srv_token_ip = ''203.0.113.7'', srv_token_issued = 1000000\<rparr>"

definition srv_example_signature :: string where
  "srv_example_signature = ''2cdcbf5d853e1f5c0af3f26ac3c20f6ee3a2255b70ce9abcaea03e2b41be3273''"

definition srv_example_lib :: "srv_token node_lib" where
  \<open>srv_example_lib =
     \<lparr>sha256_hex =
        (\<lambda>data. if data = example_challenge @ ''169435'' then example_hash4
                else replicate 64 CHR ''f''),
      hmac_sha256_hex =
        (\<lambda>key data.
           if key = hex_secret \<and> data = ''{"ip":"203.0.113.7","issued":1000000}''
           then srv_example_signature
           else replicate 64 CHR ''0''),
      JSON_stringify =
        (\<lambda>p. if p = srv_example_token then ''{"ip":"203.0.113.7","issued":1000000}''
             else ''{}''),
      Number_toString = (\<lambda>r. ''0'')\<rparr>\<close>

definition srv_example_server :: srv_server where
  "srv_example_server =
     \<lparr>srv_SECRET = hex_secret,
      challenge_keys = [example_challenge \<mapsto> (''203.0.113.7'', 1050000)],
      nonce_keys = Map.empty, rate_keys = Map.empty\<rparr>"

definition srv_example_request :: srv_request where
  "srv_example_request =
     \<lparr>srv_req_ip = ''203.0.113.7'', srv_body_challenge = Some example_challenge,
      srv_body_nonce = Some ''169435'', srv_body_hash = Some example_hash4,
      srv_body_signals = Some example_signals, srv_body_token = None,
      srv_body_signature = None\<rparr>"

subsection \<open>A burst of requests\<close>

text \<open>Thirty-four \<^verbatim>\<open>/verify\<close> requests of the client that reports an automation tool,
  250 milliseconds apart from time 1000000 on: for each the time, the nonce, the counter and
  the SHA-256 of \<^verbatim>\<open>abc\<close>, the nonce and the counter, with as many leading zeros as the
  server asks for at that point. The first thirty-three are the list \<open>burst\<close>, the last is
  \<open>last_request\<close>; \<open>burst_lib\<close> is \<open>example_lib\<close> with these digests added.\<close>

definition burst :: "(int \<times> string \<times> string \<times> string) list" where
  "burst =
     [(1000000, ''4c3bcfa6ea8c89384a3661de57bb44f4'', ''5657'',
       ''000d41db47a6383e895cff29c833d3928853ada2d5fb6df8bc0b1e04c0af47a4''),
      (1000250, ''34e22e1662247239327859cf8d2438b9'', ''3200'',
       ''000a1e06674673350020483bbce03eb59777def1730ecb6a18ae7a862e87d182''),
      (1000500, ''49a226037ac0e548ad9ea75eb9988970'', ''9341'',
       ''0003e5201e8739e5039a9d37b3121d7cd031d551ea985211c4b8ce2b1cca8768''),
      (1000750, ''4565a03c0c15d3df4edce26eda9fb350'', ''10757'',
       ''000073ba9ccbc66f9bb5c33b0f138158ea06d3ff743f4601abf521621aa8c3df''),
      (1001000, ''f942aeb040d5e51d01d1c183366c676a'', ''41381'',
       ''0000fdc5d55ca81a594758997fb2f0fec9755aef1792405b9b76db9b08e3bebd''),
      (1001250, ''4b4f699291bf8494b1f989dd38a0e6a8'', ''111091'',
       ''0000d34165f5fc7e9b8ab33342e9e51d7a4acf3a1ecc8ab750d0ece9be972dae''),
      (1001500, ''6dc3feed205e51ef952c14ae34ce3fa9'', ''94704'',
       ''0000b2d624b84dc6c1f5e95a91465c9ade68f7992b44497a56301882fa22fe3d''),
      (1001750, ''f5bcc4c803dc9e607f5929b05e34ad5a'', ''57130'',
       ''0000b5166940101fc463db19b15e4ad7c682913417cb274f2ae00106018eda79''),
      (1002000, ''1501928a54d482919a2b18f5e9cfba93'', ''4731'',
       ''0000520336b65f246915830ed81e8bfdc0924ba319b28e86cce50c64b2fb795e''),
      (1002250, ''e906347c8a700488dc419b83d94edb04'', ''11474'',
       ''0000c2e7afd84e61bf390686151e37e02faa85bacc41e039dca1996b8d7cc602''),
      (1002500, ''2f414ce6ff26c193cc6ab354e4aa041d'', ''29779'',
       ''0000715f123a52928dcaf542c010b23dc28c7913e69c942ac2a8dd5d2aa354f2''),
      (1002750, ''1bc05d38a13f1d25c460e32e7124534d'', ''1113'',
       ''0000827f5cabc3741c2aa7dd068796de2a5db83c7f7d975b5408e962527da3e9''),
      (1003000, ''84ffeaef94218b448b9c1075f85bca29'', ''17294'',
       ''0000d7c3f98891aa3a0a9857885d240be51b0eb725eb01c951f211762ab025c5''),
      (1003250, ''48589d26572edeee774beda73700a148'', ''12173'',
       ''0000496cd965ae203e83a105ef3a1e5702e26dc441c1fb5e5755e07149e0a7b5''),
      (1003500, ''55879bb0452d6d5d7b164bcca1e8e303'', ''5922'',
       ''0000d940435bdc7df0a60ba8005a67c9b61d6436baa9ca0ca063b88a7b93ae85''),
      (1003750, ''e5ebc9cbb3eab72f67dbd1e693eae38a'', ''2109'',
       ''0000cf352561df7eb7c0e336b55af1d23c3fdb0882fefb49764e8d5fb2f859f7''),
      (1004000, ''2b73ec213144ea2da3d66993fe88c049'', ''45943'',
       ''00005d728e0141b6fc6a093dad3f4fb7d3734df90b75da6d5d181c71a85d9fcb''),
      (1004250, ''9ff55443ad22b5165681ed41b47c94ec'', ''15974'',
       ''000010ff923fd4648fc11c4b8e25ab2f34c2ddfeda41eed32a04540f6b8f0dbf''),
      (1004500, ''442f97ae0ed896ce1aa1a3e8353228bb'', ''22302'',
       ''0000edeeeac93ec12e0a52bb11959b4b07d7e5a8bd97cc0675bb4bd05c48689b''),
      (1004750, ''fd8face16dbe9ba712a89d7d5e8c8307'', ''44384'',
       ''0000ae7114cafec69dee11be3a1c7f74d2d02e0ab742d03f3935623c9b026f60''),
      (1005000, ''05328c33fcd3f22e1774354310a6c3b2'', ''110004'',
       ''0000a7cbc57627774407c94b97e0e84fdb41e9a029cfbb29559894f350fd9f4d''),
      (1005250, ''e6299eb5ac1fa66540f7790458f1daa9'', ''173999'',
       ''00004d8fc93913eeb9f0f0b561c04864cf648b993d1344ab87d29726d1cc8aaf''),
      (1005500, ''d21d3616e89d18ac267678ba704e233c'', ''121635'',
       ''0000a51e8caebb173a218fd473fce71710a1d3457465055881876d4a88317b4a''),
      (1005750, ''047b24a02e9a8c57a5d959c91925bc47'', ''50127'',
       ''0000acb651adfda5db2387714443a7ca7ef4ba0d86b0852efd7325f8cf1499c5''),
      (1006000, ''1e533139546a6de5806da636bcdb1eaa'', ''34790'',
       ''0000259a141ba9b5a7f76d6698410c708241e15631026a37543ae01b579b0f40''),
      (1006250, ''1536fac36dd405c950735a74a259f107'', ''12473'',
       ''000097f2e6a493d961fb130661dad3721312f7f9bceb86dc5c95fc10c7674fbd''),
      (1006500, ''84809df003b9225a52f652e810b31044'', ''22268'',
       ''00006d04a305709a61cbe0d748f3b68de9980c92eddc210bea30686e3ab7f554''),
      (1006750, ''c1bc085588b67bdc6652ed98c814e384'', ''86480'',
       ''0000f7462982b8909a7f11ad099fba92133cea3d55bc92f1d45b745a70189cb0''),
      (1007000, ''8782724b01a07d58a94d4d913ff4869b'', ''3959'',
       ''0000730566c2b00b71bec5826cdea892176d10c5d5c560420e89bfcdb1ca1d38''),
      (1007250, ''e04d46ad1488c70f4d478ecbf2d14d7c'', ''121743'',
       ''000068b138ab885ed18cfef361fbea1c07675a97e3b230e62f3b0b3472ac1b20''),
      (1007500, ''53a8b6a898b7583d48e83ee3b5a9d6cb'', ''29767'',
       ''0000649f0fbb6657bb0f556b688b4b2186f24647ad0bdb91259b5269385b6d3d''),
      (1007750, ''20138aef49373201b690f13b3a455272'', ''168784'',
       ''0000cbbc0b73ac89b46fe0a3ae3f7c01f5d60f07d13117916337413a2ad39187''),
      (1008000, ''df21660986159e2f4ab9cdcef744a8bc'', ''11249295'',
       ''00000016039a3ada38cc4337d8dd93a065d9ea78f9c67c1c49c57ddcfb259ae4'')]"

definition last_request :: request where
  "last_request =
     bot_request ''d30ea2dc1a2d1849164b3314e3a46a30'' ''2575409''
       ''000000a915ca3165c9a37f1b17341683fbbea9193b2f569f46efa064c3db59c6''"

definition burst_lib :: "token_payload node_lib" where
  "burst_lib =
     example_lib
       \<lparr>sha256_hex :=
          (\<lambda>data. if data = ''abcd30ea2dc1a2d1849164b3314e3a46a302575409''
                  then ''000000a915ca3165c9a37f1b17341683fbbea9193b2f569f46efa064c3db59c6''
                  else case map_of (map (\<lambda>(now, nonce, counter, hash).
                                           (''abc'' @ nonce @ counter, hash)) burst) data of
                         None \<Rightarrow> sha256_hex example_lib data
                       | Some h \<Rightarrow> h)\<rparr>"

text \<open>The server after it has answered a list of \<^verbatim>\<open>/verify\<close> requests, each at its
  time.\<close>

fun serve :: "token_payload node_lib \<Rightarrow> (int \<times> request) list \<Rightarrow> server \<Rightarrow> server" where
  "serve L [] st = st"
| "serve L ((now, req) # rest) st = serve L rest (snd (post_verify L now req st))"

definition bot_requests :: "(int \<times> string \<times> string \<times> string) list \<Rightarrow> (int \<times> request) list" where
  "bot_requests rows = map (\<lambda>(now, nonce, counter, hash). (now, bot_request nonce counter hash)) rows"

text \<open>What one passed \<^verbatim>\<open>/verify\<close> request of that client makes of the trust state of
  \<^verbatim>\<open>abc\<close> (\<open>bot_state\<close>, from the state found, if any), the check that every request
  of a list is well formed, has a nonce of its own and a hash that meets the difficulty the
  server derives from the score stored at that point (\<open>solved\<close>), and the trust state after
  the list (\<open>after\<close>). Lemma \<open>serve_bot_requests\<close> proves that this is what the handler
  does.\<close>

fun row_nonce :: "int \<times> string \<times> string \<times> string \<Rightarrow> string" where
  "row_nonce (now, nonce, counter, hash) = nonce"

definition bot_state :: "int \<Rightarrow> trust_state option \<Rightarrow> trust_state" where
  "bot_state now so =
     (let s = (case so of None \<Rightarrow> \<lparr>score = 0, lastSeen = now, requestTimes = []\<rparr> | Some s \<Rightarrow> s);
          times = filter (\<lambda>t. now - t < 10000) (requestTimes s @ [now]);
          risk = score (decayTrust now s) + (if length times > 30 then 17 / 10 else 6 / 5)
      in \<lparr>score = (if risk > 3 then risk else risk * 0.5), lastSeen = now, requestTimes = times\<rparr>)"

definition stored_score :: "trust_state option \<Rightarrow> real" where
  "stored_score so = (case so of None \<Rightarrow> 0 | Some s \<Rightarrow> score s)"

fun solved :: "token_payload node_lib \<Rightarrow> trust_state option
                 \<Rightarrow> (int \<times> string \<times> string \<times> string) list \<Rightarrow> bool" where
  "solved L so [] = True"
| "solved L so ((now, nonce, counter, hash) # rest) =
     (nonce \<noteq> [] \<and> hash \<noteq> [] \<and> nonce \<notin> set (map row_nonce rest)
      \<and> sha256 L (''abc'' @ nonce @ counter) = hash
      \<and> 0 \<le> stored_score so
      \<and> startsWith hash (replicate (nat (difficulty_of (stored_score so))) CHR ''0'')
      \<and> solved L (Some (bot_state now so)) rest)"

fun after :: "trust_state option \<Rightarrow> (int \<times> string \<times> string \<times> string) list \<Rightarrow> trust_state option" where
  "after so [] = so"
| "after so ((now, nonce, counter, hash) # rest) = after (Some (bot_state now so)) rest"

section \<open>Properties\<close>

subsection \<open>Evaluation rules\<close>

lemma replicate_numeral: "replicate (numeral k) x = x # replicate (pred_numeral k) x"
  by (simp add: numeral_eq_Suc)

lemmas example_defs =
  example_nonce_def example_hash3_def example_hash6_def example_secret_def rotated_secret_def
  warmup_nonce1_def warmup_nonce2_def warmup_nonce3_def warmup_hash1_def warmup_hash2_def
  warmup_hash3_def bot_request_def warmed_server1_def warmed_server2_def
  warmed_server_def
  example_payload_def later_payload_def example_json_def later_json_def example_signature_def
  later_signature_def rotated_signature_def example_lib_def example_server_def
  example_request_def served_server_def token_request_def suspicious_server_def
  hard_request_def stale_server_def numeric_hash_def replayed_payload_def replayed_json_def
  replayed_signature_def

lemmas handler_defs =
  post_verify_def post_challenge_def post_protected_def malformed_def falsy_def str_def
  falsy_value_def field_value_def js_add_def expectedHash_of_def sha256_value_def
  cleanNonces_def sha256_def getTrustState_def putTrustState_def difficulty_of_def
  BASE_DIFFICULTY_def startsWith_def computeRisk_def decayTrust_def test_i_def toLower_def
  TOKEN_TTL_def NONCE_TTL_def sign_def verifySignature_def timingSafeEqual_def discount_def
  Let_def replicate_numeral

lemma js_add_strings: "js_add L (JString a) (JString b) = Inr (JString (a @ b))"
  by (simp add: js_add_def)

lemma expectedHash_of_strings:
  "expectedHash_of L (JString a) (JString b) (JString c) = Inr (sha256 L (a @ b @ c))"
  by (simp add: expectedHash_of_def js_add_strings sha256_value_def)

lemma example_first_call:
  "post_verify example_lib 1000000 example_request example_server
     = (Response 200 (PayloadBody example_payload example_signature), served_server)"
  by (simp add: example_defs handler_defs)

subsection \<open>Decay\<close>

lemma decayTrust_score:
  "score (decayTrust now s) = score s * max 0.5 (1 - real_of_int (now - lastSeen s) / 600000)"
  by (simp add: decayTrust_def Let_def)

lemma decayTrust_lastSeen: "lastSeen (decayTrust now s) = now"
  by (simp add: decayTrust_def Let_def)

lemma decayTrust_nonneg: "0 \<le> score s \<Longrightarrow> 0 \<le> score (decayTrust now s)"
  by (simp add: decayTrust_score)

lemma decayTrust_le:
  assumes "0 \<le> score s" and "lastSeen s \<le> now"
  shows "score (decayTrust now s) \<le> score s"
proof -
  have "max 0.5 (1 - real_of_int (now - lastSeen s) / 600000) \<le> 1"
    using assms(2) by simp
  then have "score s * max 0.5 (1 - real_of_int (now - lastSeen s) / 600000) \<le> score s * 1"
    using assms(1) by (rule mult_left_mono)
  then show ?thesis by (simp add: decayTrust_score)
qed

lemma decayTrust_mono:
  assumes "score s \<le> score s'" and "lastSeen s = lastSeen s'"
  shows "score (decayTrust now s) \<le> score (decayTrust now s')"
proof -
  have "0 \<le> max (0.5::real) (1 - real_of_int (now - lastSeen s') / 600000)" by simp
  then show ?thesis
    using assms by (simp add: decayTrust_score mult_right_mono)
qed

lemma decayCalls_nonneg: "0 \<le> score s \<Longrightarrow> 0 \<le> score (decayCalls ts s)"
  by (induction ts arbitrary: s) (simp_all add: decayTrust_nonneg)

lemma decayCalls_le:
  "0 \<le> score s \<Longrightarrow> sorted (lastSeen s # ts) \<Longrightarrow> score (decayCalls ts s) \<le> score s"
proof (induction ts arbitrary: s)
  case Nil
  then show ?case by simp
next
  case (Cons t ts)
  have "score (decayCalls ts (decayTrust t s)) \<le> score (decayTrust t s)"
    using Cons.prems by (intro Cons.IH) (auto simp: decayTrust_nonneg decayTrust_lastSeen)
  also have "\<dots> \<le> score s"
    using Cons.prems by (intro decayTrust_le) auto
  finally show ?case by simp
qed

lemma decayCalls_append: "decayCalls (xs @ ys) s = decayCalls ys (decayCalls xs s)"
  by (induction xs arbitrary: s) simp_all

lemma decayCalls_lastSeen: "lastSeen (decayCalls ts s) = last (lastSeen s # ts)"
  by (induction ts arbitrary: s) (simp_all add: decayTrust_lastSeen)

lemma decayCalls_step_le:
  assumes "0 \<le> score s" and "sorted (lastSeen s # ts)" and "n < length ts"
  shows "score (decayCalls (take (Suc n) ts) s) \<le> score (decayCalls (take n ts) s)"
proof -
  have tk: "take (Suc n) ts = take n ts @ [ts ! n]"
    using assms(3) by (simp add: take_Suc_conv_app_nth)
  have "\<forall>x \<in> set (lastSeen s # take n ts). x \<le> ts ! n"
  proof
    fix x
    assume "x \<in> set (lastSeen s # take n ts)"
    then consider "x = lastSeen s" | "x \<in> set (take n ts)"
      by auto
    then show "x \<le> ts ! n"
    proof cases
      case 1
      then show ?thesis using assms(2,3) by auto
    next
      case 2
      then obtain i where "i < n" and "x = ts ! i"
        using assms(3) by (auto simp: in_set_conv_nth)
      then show ?thesis
        using assms(2,3) by (auto intro: sorted_nth_mono)
    qed
  qed
  then have "last (lastSeen s # take n ts) \<le> ts ! n"
    using last_in_set [of "lastSeen s # take n ts"] by blast
  then have "lastSeen (decayCalls (take n ts) s) \<le> ts ! n"
    by (simp add: decayCalls_lastSeen)
  then show ?thesis
    unfolding tk decayCalls_append
    using decayTrust_le [OF decayCalls_nonneg [OF assms(1)]] by simp
qed

text \<open>
  \<^bold>\<open>C5.\<close> One decay step multiplies the score by
  \<open>max(0.5, 1 - (now - lastSeen) / 600000)\<close> and sets \<open>lastSeen\<close> to \<open>now\<close>. A score that
  is not negative stays so under any sequence of decay calls, and when the clock readings of
  the calls do not go back (each is at or after the \<open>lastSeen\<close> it finds) no call increases
  the score: not the single call, not the whole sequence, and no call within it.
\<close>

theorem decayTrust_formula_nonneg_nonincreasing:
  "(score (decayTrust now s) = score s * max 0.5 (1 - real_of_int (now - lastSeen s) / 600000)
      \<and> lastSeen (decayTrust now s) = now)
   \<and> (0 \<le> score s \<longrightarrow> 0 \<le> score (decayCalls ts s))
   \<and> (0 \<le> score s \<and> lastSeen s \<le> now \<longrightarrow> score (decayTrust now s) \<le> score s)
   \<and> (0 \<le> score s \<and> sorted (lastSeen s # ts) \<longrightarrow>
          score (decayCalls ts s) \<le> score s
          \<and> (\<forall>n < length ts. score (decayCalls (take (Suc n) ts) s)
                                 \<le> score (decayCalls (take n ts) s)))"
  using decayTrust_score decayTrust_lastSeen decayCalls_nonneg decayTrust_le decayCalls_le
    decayCalls_step_le by blast

theorem decayTrust_formula_nonneg_nonincreasing_witness:
  "score (decayTrust 300000 \<lparr>score = 2, lastSeen = 0, requestTimes = []\<rparr>) = 1
   \<and> lastSeen (decayTrust 300000 \<lparr>score = 2, lastSeen = 0, requestTimes = []\<rparr>) = 300000
   \<and> 0 \<le> score (decayCalls [120000, 1000000] \<lparr>score = 2, lastSeen = 0, requestTimes = []\<rparr>)
   \<and> score (decayCalls [120000, 1000000] \<lparr>score = 2, lastSeen = 0, requestTimes = []\<rparr>)
        \<le> score \<lparr>score = 2, lastSeen = 0, requestTimes = []\<rparr>
   \<and> score (decayCalls (take (Suc 1) [120000, 1000000])
               \<lparr>score = 2, lastSeen = 0, requestTimes = []\<rparr>)
        \<le> score (decayCalls (take 1 [120000, 1000000])
                    \<lparr>score = 2, lastSeen = 0, requestTimes = []\<rparr>)"
  using decayTrust_formula_nonneg_nonincreasing
          [of 300000 "\<lparr>score = 2, lastSeen = 0, requestTimes = []\<rparr>" "[120000, 1000000]"]
  by (simp add: decayTrust_def)

text \<open>
  The bounds of a decay step do not rest on exact arithmetic: they hold under every rounding
  that is monotone and leaves 0, 1 and the stored score as they are, as rounding to the
  nearest double does.
\<close>

lemma decayTrust_rounded_id: "decayTrust_rounded (\<lambda>x. x) now s = decayTrust now s"
  by (simp add: decayTrust_rounded_def decayTrust_def)

lemma decayTrust_rounded_bounds:
  assumes mono: "\<And>x y. x \<le> y \<Longrightarrow> fl x \<le> fl y"
    and fx: "fl 0 = 0" "fl 1 = 1" "fl (score s) = score s"
    and s: "0 \<le> score s" and t: "lastSeen s \<le> now"
  shows "0 \<le> score (decayTrust_rounded fl now s)
         \<and> score (decayTrust_rounded fl now s) \<le> score s"
proof -
  let ?q = "fl (real_of_int (now - lastSeen s) / 600000)"
  let ?m = "max 0.5 (fl (1 - ?q))"
  have "fl 0 \<le> ?q"
    using t by (intro mono) simp
  then have "1 - ?q \<le> 1"
    using fx(1) by simp
  then have "fl (1 - ?q) \<le> 1"
    using mono [of "1 - ?q" 1] fx(2) by simp
  then have m: "0 \<le> ?m" "?m \<le> 1"
    by simp_all
  have lo: "0 \<le> score s * ?m"
    using s m(1) by simp
  have hi: "score s * ?m \<le> score s"
    using mult_left_mono [OF m(2) s] by simp
  have "fl 0 \<le> fl (score s * ?m)" "fl (score s * ?m) \<le> fl (score s)"
    using lo hi by (auto intro: mono)
  then show ?thesis
    using fx by (simp add: decayTrust_rounded_def Let_def)
qed

subsection \<open>What the handlers leave alone\<close>

lemma cleanNonces_frame:
  "trustMemory (cleanNonces now st) = trustMemory st"
  "SECRET (cleanNonces now st) = SECRET st"
  "SECRET_VERSION (cleanNonces now st) = SECRET_VERSION st"
  by (simp_all add: cleanNonces_def)

lemma cleanNonces_used:
  "usedNonces (cleanNonces now st) n =
     (case usedNonces st n of
        None \<Rightarrow> None
      | Some t \<Rightarrow> if now - t > NONCE_TTL then None else Some t)"
  by (simp add: cleanNonces_def)

lemma getTrustState_frame:
  assumes "getTrustState now fp st = (s, st')"
  shows "SECRET st' = SECRET st \<and> SECRET_VERSION st' = SECRET_VERSION st
         \<and> usedNonces st' = usedNonces st \<and> trustMemory st' fp = Some s"
  using assms
  by (auto simp: getTrustState_def putTrustState_def Let_def split: option.splits)

lemma getTrustState_found:
  "trustMemory st fp = Some s \<Longrightarrow> getTrustState now fp st = (s, st)"
  by (simp add: getTrustState_def)

lemma getTrustState_created:
  "trustMemory st fp = None \<Longrightarrow>
   getTrustState now fp st
     = (\<lparr>score = 0, lastSeen = now, requestTimes = []\<rparr>,
        putTrustState fp \<lparr>score = 0, lastSeen = now, requestTimes = []\<rparr> st)"
  by (simp add: getTrustState_def Let_def)

lemma computeRisk_frame:
  assumes "computeRisk now req fp st = (risk, st')"
  shows "SECRET st' = SECRET st \<and> SECRET_VERSION st' = SECRET_VERSION st
         \<and> usedNonces st' = usedNonces st"
  using assms
  by (auto simp: computeRisk_def putTrustState_def Let_def split: prod.splits
      dest: getTrustState_frame)

lemma discount_frame:
  "SECRET (discount fp st) = SECRET st"
  "SECRET_VERSION (discount fp st) = SECRET_VERSION st"
  "usedNonces (discount fp st) = usedNonces st"
  by (simp_all add: discount_def putTrustState_def split: option.splits)

subsection \<open>The outcomes of \<^verbatim>\<open>/verify\<close>\<close>

lemma post_verify_malformed:
  "malformed req \<Longrightarrow>
   post_verify L now req st = (Response 400 (ErrorBody ''Malformed request''), cleanNonces now st)"
  by (simp add: post_verify_def Let_def)

lemma post_verify_replay:
  "\<not> malformed req \<Longrightarrow> usedNonces (cleanNonces now st) (field_value (body_nonce req)) \<noteq> None \<Longrightarrow>
   post_verify L now req st = (Response 403 (ErrorBody ''Replay detected''), cleanNonces now st)"
  by (simp add: post_verify_def Let_def)

lemma post_verify_never_high_risk:
  "fst (post_verify L now req st) \<noteq> Response 403 (ErrorBody ''High risk entity'')"
  by (simp add: post_verify_def Let_def split: prod.splits sum.splits)

lemma post_verify_never_invalid_challenge:
  "fst (post_verify L now req st) \<noteq> Response 403 (ErrorBody ''Invalid challenge'')"
  by (simp add: post_verify_def Let_def split: prod.splits sum.splits)

lemma post_verify_risk_above_throttle:
  assumes "\<not> malformed req"
    and "usedNonces (cleanNonces now st) (field_value (body_nonce req)) = None"
    and "expectedHash_of L (field_value (body_fingerprintHash req)) (field_value (body_nonce req))
           (field_value (body_counter req)) = Inr h"
    and "body_hash req = Some (JString h)"
    and "getTrustState now (field_value (body_fingerprintHash req)) (cleanNonces now st) = (state, st2)"
    and "0 \<le> difficulty_of (score state)"
    and "startsWith h (replicate (nat (difficulty_of (score state))) CHR ''0'')"
    and "3 < fst (computeRisk now req (field_value (body_fingerprintHash req)) st2)"
  shows "fst (post_verify L now req st) = Response 200 (StatusBody ''shadow_throttled'')"
  using assms
  by (auto simp: post_verify_def Let_def field_value_def split: prod.splits)

lemma post_verify_200:
  assumes "post_verify L now req st = (Response 200 b, st')"
  shows "\<not> malformed req \<and> usedNonces st' (field_value (body_nonce req)) = Some now
         \<and> SECRET st' = SECRET st \<and> SECRET_VERSION st' = SECRET_VERSION st"
  using assms
  by (auto simp: post_verify_def Let_def discount_frame cleanNonces_frame
      split: if_splits prod.splits sum.splits dest!: getTrustState_frame computeRisk_frame)

lemma post_verify_token:
  assumes "post_verify L now req st = (Response 200 (PayloadBody payload signature), st')"
  shows "payload = \<lparr>payload_fingerprintHash = field_value (body_fingerprintHash req),
                     payload_ip = req_ip req, payload_exp = now + TOKEN_TTL,
                     payload_v = SECRET_VERSION st\<rparr>
         \<and> signature = sign L (SECRET st') payload"
  using assms
  by (auto simp: post_verify_def Let_def discount_frame cleanNonces_frame
      split: if_splits prod.splits sum.splits dest!: getTrustState_frame computeRisk_frame)

subsection \<open>Scores are never negative\<close>

lemma scores_nonneg_put:
  "scores_nonneg st \<Longrightarrow> 0 \<le> score s \<Longrightarrow> scores_nonneg (putTrustState fp s st)"
  by (simp add: scores_nonneg_def putTrustState_def)

lemma scores_nonneg_clean: "scores_nonneg (cleanNonces now st) = scores_nonneg st"
  by (simp add: scores_nonneg_def cleanNonces_def)

lemma scores_nonneg_used:
  "scores_nonneg (st\<lparr>usedNonces := m\<rparr>) = scores_nonneg st"
  by (simp add: scores_nonneg_def)

lemma scores_nonneg_get:
  assumes "scores_nonneg st" and "getTrustState now fp st = (s, st')"
  shows "scores_nonneg st' \<and> 0 \<le> score s"
proof (cases "trustMemory st fp")
  case None
  then show ?thesis
    using assms by (auto simp: getTrustState_created intro: scores_nonneg_put)
next
  case (Some s0)
  then show ?thesis
    using assms by (auto simp: getTrustState_found scores_nonneg_def)
qed

lemma computeRisk_nonneg:
  assumes "scores_nonneg st" and "computeRisk now req fp st = (risk, st')"
  shows "scores_nonneg st' \<and> 0 \<le> risk"
proof -
  obtain s0 st1 where g: "getTrustState now fp st = (s0, st1)"
    by (cases "getTrustState now fp st")
  have s0: "scores_nonneg st1" "0 \<le> score s0"
    using scores_nonneg_get [OF assms(1) g] by simp_all
  have d: "0 \<le> score (decayTrust now s0)"
    using s0(2) by (simp add: decayTrust_nonneg)
  show ?thesis
    using assms(2) g s0(1) d
    by (auto simp: computeRisk_def Let_def intro!: scores_nonneg_put)
qed

lemma scores_nonneg_discount: "scores_nonneg st \<Longrightarrow> scores_nonneg (discount fp st)"
  by (auto simp: discount_def scores_nonneg_def putTrustState_def split: option.splits)

lemma post_verify_scores_nonneg:
  assumes "scores_nonneg st"
  shows "scores_nonneg (snd (post_verify L now req st))"
proof -
  let ?fp = "field_value (body_fingerprintHash req)"
  let ?st1 = "cleanNonces now st"
  obtain s st2 where g: "getTrustState now ?fp ?st1 = (s, st2)"
    by (cases "getTrustState now ?fp ?st1")
  obtain risk st3 where r: "computeRisk now req ?fp st2 = (risk, st3)"
    by (cases "computeRisk now req ?fp st2")
  let ?st4 = "st3\<lparr>usedNonces := (usedNonces st3)(field_value (body_nonce req) \<mapsto> now)\<rparr>"
  have n1: "scores_nonneg ?st1"
    using assms by (simp add: scores_nonneg_clean)
  have n2: "scores_nonneg st2"
    using scores_nonneg_get [OF n1 g] by simp
  have n3: "scores_nonneg st3"
    using computeRisk_nonneg [OF n2 r] by simp
  have n4: "scores_nonneg ?st4"
    using n3 by (simp add: scores_nonneg_used)
  have n5: "scores_nonneg (discount ?fp ?st4)"
    using n4 by (rule scores_nonneg_discount)
  show ?thesis
    using n1 n2 n4 n5 by (simp add: post_verify_def Let_def g r split: sum.splits)
qed

lemma post_challenge_scores_nonneg:
  assumes "scores_nonneg st"
  shows "scores_nonneg (snd (post_challenge r now req st))"
proof -
  let ?fp = "field_value (body_fingerprintHash req)"
  let ?st1 = "cleanNonces now st"
  obtain s st2 where g: "getTrustState now ?fp ?st1 = (s, st2)"
    by (cases "getTrustState now ?fp ?st1")
  have n1: "scores_nonneg ?st1"
    using assms by (simp add: scores_nonneg_clean)
  have n2: "scores_nonneg st2" "0 \<le> score s"
    using scores_nonneg_get [OF n1 g] by simp_all
  have n3: "scores_nonneg (putTrustState ?fp (decayTrust now s) st2)"
    using n2 by (intro scores_nonneg_put decayTrust_nonneg)
  show ?thesis
    using n1 n3 by (simp add: post_challenge_def Let_def g)
qed

lemma rotateSecret_scores_nonneg: "scores_nonneg (rotateSecret fresh st) = scores_nonneg st"
  by (simp add: scores_nonneg_def rotateSecret_def)

lemma example_server_scores_nonneg: "scores_nonneg example_server"
  by (simp add: scores_nonneg_def example_server_def)

subsection \<open>The difficulty as a function of the score\<close>

lemma difficulty_of_mono: "s \<le> s' \<Longrightarrow> difficulty_of s \<le> difficulty_of s'"
  by (simp add: difficulty_of_def floor_mono min.coboundedI2)

lemma difficulty_of_range:
  "0 \<le> s \<Longrightarrow> BASE_DIFFICULTY \<le> difficulty_of s \<and> difficulty_of s \<le> BASE_DIFFICULTY + 3"
  by (simp add: difficulty_of_def)

subsection \<open>A burst of requests reaches a risk above the deny threshold\<close>

lemma bot_ua:
  "test_i ''headless'' ''HeadlessChrome python-requests/2.31''"
  "test_i ''python'' ''HeadlessChrome python-requests/2.31''"
  by (simp_all add: test_i_def toLower_def startsWith_def)

lemma bot_request_fields:
  "str (header_user_agent (bot_request n c h)) = ''HeadlessChrome python-requests/2.31''"
  "field_value (body_fingerprintHash (bot_request n c h)) = JString ''abc''"
  "field_value (body_nonce (bot_request n c h)) = JString n"
  "field_value (body_counter (bot_request n c h)) = JString c"
  "field_value (body_hash (bot_request n c h)) = JString h"
  "malformed (bot_request n c h) \<longleftrightarrow> n = [] \<or> h = []"
  by (simp_all add: bot_request_def str_def malformed_def falsy_value_def field_value_def)

lemma bot_computeRisk:
  assumes "trustMemory st (JString ''abc'') = Some s"
  shows "computeRisk now (bot_request n c h) (JString ''abc'') st
         = (score (decayTrust now s)
              + (if length (filter (\<lambda>t. now - t < 10000) (requestTimes s @ [now])) > 30
                 then 17 / 10 else 6 / 5),
            putTrustState (JString ''abc'')
              \<lparr>score = score (decayTrust now s)
                  + (if length (filter (\<lambda>t. now - t < 10000) (requestTimes s @ [now])) > 30
                     then 17 / 10 else 6 / 5),
               lastSeen = now,
               requestTimes = filter (\<lambda>t. now - t < 10000) (requestTimes s @ [now])\<rparr>
              st)"
  using assms
  by (cases s)
     (simp add: computeRisk_def getTrustState_found bot_request_fields bot_ua Let_def
        decayTrust_def)

lemma bot_verify:
  assumes "trustMemory st (JString ''abc'') = so"
    and "usedNonces st (JString n) = None" and "n \<noteq> []" and "h \<noteq> []"
    and "sha256 L (''abc'' @ n @ c) = h"
    and "0 \<le> stored_score so"
    and "startsWith h (replicate (nat (difficulty_of (stored_score so))) CHR ''0'')"
  shows "trustMemory (snd (post_verify L now (bot_request n c h) st))
           = (trustMemory st)((JString ''abc'') \<mapsto> bot_state now so)"
    and "usedNonces (snd (post_verify L now (bot_request n c h) st))
           = (usedNonces (cleanNonces now st))(JString n \<mapsto> now)"
    and "SECRET (snd (post_verify L now (bot_request n c h) st)) = SECRET st"
    and "SECRET_VERSION (snd (post_verify L now (bot_request n c h) st)) = SECRET_VERSION st"
proof -
  let ?st1 = "cleanNonces now st"
  let ?s = "case so of None \<Rightarrow> \<lparr>score = 0, lastSeen = now, requestTimes = []\<rparr> | Some s \<Rightarrow> s"
  define st2 where "st2 = snd (getTrustState now (JString ''abc'') ?st1)"
  have g: "getTrustState now (JString ''abc'') ?st1 = (?s, st2)"
    using assms(1) unfolding st2_def
    by (cases so) (simp_all add: getTrustState_def Let_def cleanNonces_frame)
  have m2: "trustMemory st2 = (trustMemory st)((JString ''abc'') \<mapsto> ?s)"
    using assms(1) unfolding st2_def
    by (cases so)
       (auto simp: getTrustState_def putTrustState_def Let_def cleanNonces_frame fun_upd_idem)
  have f2: "usedNonces st2 = usedNonces ?st1" "SECRET st2 = SECRET st"
      "SECRET_VERSION st2 = SECRET_VERSION st"
    using assms(1) unfolding st2_def
    by (cases so; simp add: getTrustState_def putTrustState_def Let_def cleanNonces_frame)+
  have sc: "score ?s = stored_score so"
    by (simp add: stored_score_def split: option.splits)
  have d: "\<not> difficulty_of (score ?s) < 0"
    using assms(6) difficulty_of_range [of "stored_score so"] sc
    by (simp add: BASE_DIFFICULTY_def)
  have c: "usedNonces ?st1 (JString n) = None"
    using assms(2) by (simp add: cleanNonces_used)
  have t2: "trustMemory st2 (JString ''abc'') = Some ?s"
    using m2 by simp
  note r = bot_computeRisk [OF t2, of now n c h]
  have pv: "snd (post_verify L now (bot_request n c h) st)
        = (let risk = fst (computeRisk now (bot_request n c h) (JString ''abc'') st2);
               st3 = snd (computeRisk now (bot_request n c h) (JString ''abc'') st2);
               st4 = st3\<lparr>usedNonces := (usedNonces st3)(JString n \<mapsto> now)\<rparr>
           in if risk > 3 then st4 else discount (JString ''abc'') st4)"
    using assms(3,4,5,7) c d g sc
    by (simp add: post_verify_def bot_request_fields expectedHash_of_strings Let_def
        split: prod.splits)
  show "trustMemory (snd (post_verify L now (bot_request n c h) st))
           = (trustMemory st)((JString ''abc'') \<mapsto> bot_state now so)"
    unfolding pv r
    by (simp add: Let_def putTrustState_def discount_def m2 bot_state_def)
  show "usedNonces (snd (post_verify L now (bot_request n c h) st))
           = (usedNonces (cleanNonces now st))(JString n \<mapsto> now)"
    unfolding pv r
    by (simp add: Let_def putTrustState_def discount_def f2)
  show "SECRET (snd (post_verify L now (bot_request n c h) st)) = SECRET st"
    unfolding pv r
    by (simp add: Let_def putTrustState_def discount_def f2)
  show "SECRET_VERSION (snd (post_verify L now (bot_request n c h) st)) = SECRET_VERSION st"
    unfolding pv r
    by (simp add: Let_def putTrustState_def discount_def f2)
qed

lemma serve_bot_requests:
  assumes "solved L (trustMemory st (JString ''abc'')) rows"
    and "\<forall>(t, n, c, h) \<in> set rows. usedNonces st (JString n) = None"
  shows "trustMemory (serve L (bot_requests rows) st) (JString ''abc'') = after (trustMemory st (JString ''abc'')) rows
         \<and> (\<forall>n. usedNonces st (JString n) = None \<and> n \<notin> set (map row_nonce rows)
                \<longrightarrow> usedNonces (serve L (bot_requests rows) st) (JString n) = None)
         \<and> SECRET (serve L (bot_requests rows) st) = SECRET st
         \<and> SECRET_VERSION (serve L (bot_requests rows) st) = SECRET_VERSION st"
  using assms
proof (induction rows arbitrary: st)
  case Nil
  then show ?case
    by (simp add: bot_requests_def)
next
  case (Cons row rows)
  obtain now n c h where row: "row = (now, n, c, h)"
    by (cases row) auto
  let ?st' = "snd (post_verify L now (bot_request n c h) st)"
  have s: "n \<noteq> []" "h \<noteq> []" "n \<notin> set (map row_nonce rows)"
    "sha256 L (''abc'' @ n @ c) = h" "0 \<le> stored_score (trustMemory st (JString ''abc''))"
    "startsWith h (replicate (nat (difficulty_of (stored_score (trustMemory st (JString ''abc''))))) CHR ''0'')"
    "solved L (Some (bot_state now (trustMemory st (JString ''abc'')))) rows"
    using Cons.prems(1) by (simp_all add: row)
  have fresh: "usedNonces st (JString n) = None"
    using Cons.prems(2) by (simp add: row)
  note step = bot_verify [OF refl fresh s(1,2,4,5,6), of now]
  have t': "trustMemory ?st' (JString ''abc'') = Some (bot_state now (trustMemory st (JString ''abc'')))"
    by (simp add: step(1))
  have u': "\<And>m. usedNonces st (JString m) = None \<Longrightarrow> m \<noteq> n
                \<Longrightarrow> usedNonces ?st' (JString m) = None"
    by (simp add: step(2) cleanNonces_used)
  have "\<forall>(t, m, c, h) \<in> set rows. usedNonces ?st' (JString m) = None"
  proof (clarify)
    fix t m c' h'
    assume "(t, m, c', h') \<in> set rows"
    then have "usedNonces st (JString m) = None" "m \<noteq> n"
      using Cons.prems(2) s(3) by (force simp: row)+
    then show "usedNonces ?st' (JString m) = None"
      by (rule u')
  qed
  moreover have "solved L (trustMemory ?st' (JString ''abc'')) rows"
    using s(7) t' by simp
  ultimately have IH: "trustMemory (serve L (bot_requests rows) ?st') (JString ''abc'')
        = after (trustMemory ?st' (JString ''abc'')) rows
      \<and> (\<forall>m. usedNonces ?st' (JString m) = None \<and> m \<notin> set (map row_nonce rows)
             \<longrightarrow> usedNonces (serve L (bot_requests rows) ?st') (JString m) = None)
      \<and> SECRET (serve L (bot_requests rows) ?st') = SECRET ?st'
      \<and> SECRET_VERSION (serve L (bot_requests rows) ?st') = SECRET_VERSION ?st'"
    by (intro Cons.IH)
  have sv: "serve L (bot_requests (row # rows)) st = serve L (bot_requests rows) ?st'"
    by (simp add: bot_requests_def row)
  have "usedNonces (serve L (bot_requests rows) ?st') (JString m) = None"
    if "usedNonces st (JString m) = None" and "m \<notin> set (map row_nonce (row # rows))" for m
  proof -
    have "m \<noteq> n" "m \<notin> set (map row_nonce rows)"
      using that(2) by (simp_all add: row)
    then show ?thesis
      using IH u' [OF that(1)] by blast
  qed
  then show ?case
    unfolding sv using IH t' step(3,4) by (simp add: row)
qed

lemmas burst_eval =
  burst_def burst_lib_def sha256_def stored_score_def bot_state_def decayTrust_def
  difficulty_of_def BASE_DIFFICULTY_def startsWith_def replicate_numeral Let_def

lemma burst_solved: "solved burst_lib None burst"
  by (simp add: burst_eval)

lemma burst_after:
  "\<exists>s. after None burst = Some s \<and> lastSeen s = 1008000 \<and> length (requestTimes s) = 33
       \<and> (\<forall>t \<in> set (requestTimes s). 1008250 - t < 10000)
       \<and> 4 \<le> score s \<and> score s < 5"
  by (simp add: burst_eval)

lemma last_request_solved:
  "sha256 burst_lib (''abc'' @ ''d30ea2dc1a2d1849164b3314e3a46a30'' @ ''2575409'')
     = ''000000a915ca3165c9a37f1b17341683fbbea9193b2f569f46efa064c3db59c6''"
  "row_nonce ` set burst \<inter> {''d30ea2dc1a2d1849164b3314e3a46a30''} = {}"
  by (simp_all add: burst_lib_def sha256_def burst_def)

lemma burst_reaches_deny_threshold:
  "5 < fst (computeRisk 1008250 last_request (JString ''abc'')
              (serve burst_lib (bot_requests burst) example_server))
   \<and> fst (post_verify burst_lib 1008250 last_request
            (serve burst_lib (bot_requests burst) example_server))
       = Response 200 (StatusBody ''shadow_throttled'')"
proof -
  let ?st = "serve burst_lib (bot_requests burst) example_server"
  let ?n = "''d30ea2dc1a2d1849164b3314e3a46a30''"
  let ?h = "''000000a915ca3165c9a37f1b17341683fbbea9193b2f569f46efa064c3db59c6''"
  have e: "trustMemory example_server (JString ''abc'') = None" "\<And>n. usedNonces example_server n = None"
    by (simp_all add: example_server_def)
  note sv = serve_bot_requests [of burst_lib example_server burst]
  have tm: "trustMemory ?st (JString ''abc'') = after None burst"
    and un: "usedNonces ?st (JString ?n) = None"
    using sv burst_solved last_request_solved(2) e by auto
  obtain s where s: "trustMemory ?st (JString ''abc'') = Some s" "lastSeen s = 1008000"
    "length (requestTimes s) = 33" "\<forall>t \<in> set (requestTimes s). 1008250 - t < 10000"
    "4 \<le> score s" "score s < 5"
    using burst_after tm by auto
  have f: "filter (\<lambda>t. 1008250 - t < 10000) (requestTimes s @ [1008250]) = requestTimes s @ [1008250]"
    using s(4) by simp
  have dec: "score (decayTrust 1008250 s) = score s * (2399 / 2400)"
    using s(2) by (simp add: decayTrust_score)
  have risk: "fst (computeRisk 1008250 last_request (JString ''abc'') ?st) = score s * (2399 / 2400) + 17 / 10"
    unfolding last_request_def bot_computeRisk [OF s(1)] f
    using s(3) dec by simp
  have big: "5 < score s * (2399 / 2400) + 17 / 10"
    using s(5) by simp
  have cl: "usedNonces (cleanNonces 1008250 ?st) (JString ?n) = None"
    using un by (simp add: cleanNonces_used)
  have g: "getTrustState 1008250 (JString ''abc'') (cleanNonces 1008250 ?st) = (s, cleanNonces 1008250 ?st)"
    using s(1) by (simp add: getTrustState_found cleanNonces_frame)
  have d: "difficulty_of (score s) = 6"
    using s(5,6) by (simp add: difficulty_of_def BASE_DIFFICULTY_def)
  have risk': "fst (computeRisk 1008250 last_request (JString ''abc'') (cleanNonces 1008250 ?st))
                 = score s * (2399 / 2400) + 17 / 10"
    unfolding last_request_def
      bot_computeRisk [of "cleanNonces 1008250 ?st" s, unfolded cleanNonces_frame, OF s(1)] f
    using s(3) dec by simp
  have "fst (post_verify burst_lib 1008250 last_request ?st)
          = Response 200 (StatusBody ''shadow_throttled'')"
  proof (rule post_verify_risk_above_throttle
           [where state = s and ?st2.0 = "cleanNonces 1008250 ?st" and h = ?h])
    show "\<not> malformed last_request"
      by (simp add: last_request_def bot_request_fields)
    show "usedNonces (cleanNonces 1008250 ?st) (field_value (body_nonce last_request)) = None"
      using cl by (simp add: last_request_def bot_request_fields)
    show "expectedHash_of burst_lib (field_value (body_fingerprintHash last_request))
            (field_value (body_nonce last_request)) (field_value (body_counter last_request))
          = Inr ?h"
      using last_request_solved(1)
      by (simp add: last_request_def bot_request_fields expectedHash_of_strings)
    show "body_hash last_request = Some (JString ?h)"
      by (simp add: last_request_def bot_request_def)
    show "getTrustState 1008250 (field_value (body_fingerprintHash last_request)) (cleanNonces 1008250 ?st)
            = (s, cleanNonces 1008250 ?st)"
      using g by (simp add: last_request_def bot_request_fields)
    show "0 \<le> difficulty_of (score s)"
      using d by simp
    show "startsWith ?h (replicate (nat (difficulty_of (score s))) CHR ''0'')"
      unfolding d by (simp add: startsWith_def replicate_numeral)
    show "3 < fst (computeRisk 1008250 last_request (field_value (body_fingerprintHash last_request))
                     (cleanNonces 1008250 ?st))"
      using risk' big by (simp add: last_request_def bot_request_fields)
  qed
  then show ?thesis
    using risk big by simp
qed

subsection \<open>Risk thresholds\<close>

text \<open>
  \<^bold>\<open>C1.\<close> A request whose computed risk exceeds the deny threshold 5 should be answered
  with status 403 and the high-risk error. The handler tests \<open>risk > 3\<close> first and returns
  there (\<open>post_verify_risk_above_throttle\<close>), so the test \<open>risk > 5\<close> is never reached with a
  risk above 3, and no request at all gets the high-risk answer
  (\<open>post_verify_never_high_risk\<close>). The request of the example
  has the computed risk 5.5 and is answered with status 200 and \<open>shadow_throttled\<close>. A risk
  above 5 does arise: a server that has just started reaches it with the thirty-fourth of
  the requests of \<open>burst_reaches_deny_threshold\<close>, and answers that one the same way.
\<close>

theorem risk_above_deny_threshold_is_shadow_throttled:
  "fst (computeRisk 1000000 hard_request (JString ''abc'') suspicious_server) = 11 / 2
   \<and> fst (post_verify example_lib 1000000 hard_request suspicious_server)
       = Response 200 (StatusBody ''shadow_throttled'')"
  by (simp add: example_defs handler_defs)

subsection \<open>Decay before the score is read\<close>

lemma post_challenge_reads_decayed_score:
  assumes "\<not> falsy_value (body_fingerprintHash req)"
  shows "fst (post_challenge r now req st)
         = Response 200
             (NonceBody r
                (difficulty_of
                   (score (decayTrust now
                      (fst (getTrustState now (field_value (body_fingerprintHash req))
                              (cleanNonces now st))))))
                (SECRET_VERSION st))"
  using assms
  by (auto simp: post_challenge_def Let_def putTrustState_def cleanNonces_frame
      split: prod.splits dest: getTrustState_frame)

lemma computeRisk_reads_decayed_score:
  "\<exists>penalty\<ge>0. fst (computeRisk now req fp st)
      = score (decayTrust now (fst (getTrustState now fp st))) + penalty"
  by (auto simp: computeRisk_def Let_def split: prod.splits)

lemma warmup_first_call:
  "post_verify example_lib 1000000 (bot_request warmup_nonce1 ''2069'' warmup_hash1)
     example_server
   = (Response 200 (PayloadBody example_payload example_signature), warmed_server1)"
  by (simp add: example_defs handler_defs)

lemma warmup_second_call:
  "post_verify example_lib 1000000 (bot_request warmup_nonce2 ''1943'' warmup_hash2)
     warmed_server1
   = (Response 200 (PayloadBody example_payload example_signature), warmed_server2)"
  by (simp add: example_defs handler_defs fun_eq_iff)

lemma warmup_third_call:
  "post_verify example_lib 1000000 (bot_request warmup_nonce3 ''2893'' warmup_hash3)
     warmed_server2
   = (Response 200 (PayloadBody example_payload example_signature), warmed_server)"
  by (simp add: example_defs handler_defs fun_eq_iff)

lemma warmed_server_reached:
  "snd (post_verify example_lib 1000000 (bot_request warmup_nonce3 ''2893'' warmup_hash3)
     (snd (post_verify example_lib 1000000 (bot_request warmup_nonce2 ''1943'' warmup_hash2)
        (snd (post_verify example_lib 1000000 (bot_request warmup_nonce1 ''2069'' warmup_hash1)
           example_server)))))
   = warmed_server"
  by (simp add: warmup_first_call warmup_second_call warmup_third_call)

text \<open>
  \<^bold>\<open>C4.\<close> The score should be read for a decision only after decay at the current
  time. \<^verbatim>\<open>/challenge\<close> does so, and so does the risk computation, but \<^verbatim>\<open>/verify\<close>
  derives its difficulty from the stored score before \<^verbatim>\<open>computeRisk\<close> decays it. The
  server of the example has answered three requests at time 1000000 and holds the score
  1.05. At time 1300000 the decayed score is 0.525 and gives difficulty 3, which is what
  \<^verbatim>\<open>/challenge\<close> announces at that moment; \<^verbatim>\<open>/verify\<close> computes difficulty 4 from the
  stored 1.05 and rejects a hash with three leading zeros.
\<close>

theorem verify_difficulty_reads_undecayed_score:
  "trustMemory warmed_server (JString ''abc'')
     = Some \<lparr>score = 21 / 20, lastSeen = 1000000, requestTimes = [1000000, 1000000, 1000000]\<rparr>
   \<and> difficulty_of
       (score (decayTrust 1300000
          \<lparr>score = 21 / 20, lastSeen = 1000000,
           requestTimes = [1000000, 1000000, 1000000]\<rparr>)) = 3
   \<and> startsWith example_hash3 (replicate 3 CHR ''0'')
   \<and> fst (post_challenge example_nonce 1300000 example_request warmed_server)
       = Response 200 (NonceBody example_nonce 3 1)
   \<and> fst (post_verify example_lib 1300000 example_request warmed_server)
       = Response 403 (ErrorBody ''PoW difficulty fail'')"
  by (simp add: example_defs handler_defs)

subsection \<open>The difficulty \<^verbatim>\<open>/challenge\<close> returns\<close>

lemma post_challenge_difficulty_found:
  assumes "\<not> falsy_value (body_fingerprintHash req)"
    and "trustMemory st (field_value (body_fingerprintHash req)) = Some s"
  shows "issued_difficulty (fst (post_challenge r now req st))
         = Some (difficulty_of (score (decayTrust now s)))"
  using assms
  by (simp add: post_challenge_reads_decayed_score issued_difficulty_def
      getTrustState_found cleanNonces_frame)

lemma post_challenge_difficulty_fresh:
  assumes "\<not> falsy_value (body_fingerprintHash req)"
    and "trustMemory st (field_value (body_fingerprintHash req)) = None"
  shows "issued_difficulty (fst (post_challenge r now req st)) = Some BASE_DIFFICULTY"
  using assms
  by (simp add: post_challenge_reads_decayed_score issued_difficulty_def
      getTrustState_created cleanNonces_frame decayTrust_score difficulty_of_def)

text \<open>
  \<^bold>\<open>C6.\<close> The difficulty \<^verbatim>\<open>/challenge\<close> returns is
  \<open>BASE_DIFFICULTY + min(3, floor(score))\<close> of the decayed score. As a function of the score
  it is non-decreasing, and for a score that is not negative it lies between
  \<open>BASE_DIFFICULTY = 3\<close> and \<open>BASE_DIFFICULTY + 3 = 6\<close>. For the handler: a first request of
  a fingerprint gets difficulty 3; and of two servers that hold trust states for the
  fingerprint with the same \<open>lastSeen\<close> and scores \<open>0 \<le> score s \<le> score s'\<close>, the one with
  the larger score answers with a difficulty at least as large, both within 3 and 6.
\<close>

theorem challenge_difficulty_monotone_and_clamped:
  "(x \<le> y \<longrightarrow> difficulty_of x \<le> difficulty_of y)
   \<and> (0 \<le> x \<longrightarrow> BASE_DIFFICULTY \<le> difficulty_of x \<and> difficulty_of x \<le> BASE_DIFFICULTY + 3
                  \<and> 3 \<le> difficulty_of x \<and> difficulty_of x \<le> 6)
   \<and> (\<not> falsy_value (body_fingerprintHash req)
        \<and> trustMemory st0 (field_value (body_fingerprintHash req)) = None
        \<longrightarrow> issued_difficulty (fst (post_challenge r now req st0)) = Some 3)
   \<and> (\<not> falsy_value (body_fingerprintHash req)
        \<and> trustMemory st (field_value (body_fingerprintHash req)) = Some s
        \<and> trustMemory st' (field_value (body_fingerprintHash req)) = Some s'
        \<and> lastSeen s = lastSeen s' \<and> 0 \<le> score s \<and> score s \<le> score s'
        \<longrightarrow> (\<exists>d d'. issued_difficulty (fst (post_challenge r now req st)) = Some d
                    \<and> issued_difficulty (fst (post_challenge r' now req st')) = Some d'
                    \<and> 3 \<le> d \<and> d \<le> d' \<and> d' \<le> 6))"
proof (intro conjI impI)
  assume "x \<le> y"
  then show "difficulty_of x \<le> difficulty_of y"
    by (rule difficulty_of_mono)
next
  assume x: "0 \<le> x"
  show "BASE_DIFFICULTY \<le> difficulty_of x" "difficulty_of x \<le> BASE_DIFFICULTY + 3"
    using difficulty_of_range [OF x] by simp_all
  then show "3 \<le> difficulty_of x" "difficulty_of x \<le> 6"
    by (simp_all add: BASE_DIFFICULTY_def)
next
  assume "\<not> falsy_value (body_fingerprintHash req)
          \<and> trustMemory st0 (field_value (body_fingerprintHash req)) = None"
  then show "issued_difficulty (fst (post_challenge r now req st0)) = Some 3"
    by (simp add: post_challenge_difficulty_fresh BASE_DIFFICULTY_def)
next
  assume a: "\<not> falsy_value (body_fingerprintHash req)
          \<and> trustMemory st (field_value (body_fingerprintHash req)) = Some s
          \<and> trustMemory st' (field_value (body_fingerprintHash req)) = Some s'
          \<and> lastSeen s = lastSeen s' \<and> 0 \<le> score s \<and> score s \<le> score s'"
  let ?d = "difficulty_of (score (decayTrust now s))"
  let ?d' = "difficulty_of (score (decayTrust now s'))"
  have nn: "0 \<le> score (decayTrust now s)" "0 \<le> score (decayTrust now s')"
    using a by (simp_all add: decayTrust_nonneg)
  have le: "score (decayTrust now s) \<le> score (decayTrust now s')"
    using a by (simp add: decayTrust_mono)
  have "issued_difficulty (fst (post_challenge r now req st)) = Some ?d"
    and "issued_difficulty (fst (post_challenge r' now req st')) = Some ?d'"
    using a by (simp_all add: post_challenge_difficulty_found)
  moreover have "3 \<le> ?d" "?d' \<le> 6"
    using difficulty_of_range [OF nn(1)] difficulty_of_range [OF nn(2)]
    by (simp_all add: BASE_DIFFICULTY_def)
  moreover have "?d \<le> ?d'"
    using le by (rule difficulty_of_mono)
  ultimately show "\<exists>d d'. issued_difficulty (fst (post_challenge r now req st)) = Some d
                    \<and> issued_difficulty (fst (post_challenge r' now req st')) = Some d'
                    \<and> 3 \<le> d \<and> d \<le> d' \<and> d' \<le> 6"
    by blast
qed

theorem challenge_difficulty_monotone_and_clamped_witness:
  "difficulty_of (21 / 20) \<le> difficulty_of (11 / 2)
   \<and> 3 \<le> difficulty_of (21 / 20) \<and> difficulty_of (21 / 20) \<le> 6
   \<and> issued_difficulty (fst (post_challenge example_nonce 1000000 example_request example_server))
       = Some 3
   \<and> issued_difficulty (fst (post_challenge example_nonce 1000000 example_request stale_server))
       = Some 3
   \<and> issued_difficulty
         (fst (post_challenge example_nonce 1000000 example_request
                 (stale_server\<lparr>trustMemory :=
                    [JString ''abc'' \<mapsto> \<lparr>score = 11, lastSeen = 0, requestTimes = []\<rparr>]\<rparr>)))
       = Some 6"
  using challenge_difficulty_monotone_and_clamped
          [of "21 / 20" "11 / 2" example_request example_server example_nonce 1000000
              stale_server "\<lparr>score = 21 / 20, lastSeen = 0, requestTimes = []\<rparr>"
              "stale_server\<lparr>trustMemory :=
                 [JString ''abc'' \<mapsto> \<lparr>score = 11, lastSeen = 0, requestTimes = []\<rparr>]\<rparr>"
              "\<lparr>score = 11, lastSeen = 0, requestTimes = []\<rparr>" example_nonce]
  by (simp add: example_defs handler_defs issued_difficulty_def)

subsection \<open>Replays\<close>

lemma post_verify_used_nonce:
  assumes "\<not> malformed req"
    and "usedNonces st (field_value (body_nonce req)) = Some t"
    and "now - t \<le> NONCE_TTL"
  shows "post_verify L now req st
         = (Response 403 (ErrorBody ''Replay detected''), cleanNonces now st)"
proof -
  have "usedNonces (cleanNonces now st) (field_value (body_nonce req)) \<noteq> None"
    using assms(2,3) by (simp add: cleanNonces_used)
  then show ?thesis
    using assms(1) by (rule post_verify_replay [rotated])
qed

text \<open>A handler sees the used nonces through \<^verbatim>\<open>cleanNonces\<close> only, so a nonce recorded
  more than \<open>NONCE_TTL\<close> ago is to it a nonce that is not recorded.\<close>

lemma post_verify_cleaned:
  "cleanNonces now st' = cleanNonces now st \<Longrightarrow>
   post_verify L now req st' = post_verify L now req st"
  by (simp add: post_verify_def)

lemma cleanNonces_expired:
  assumes "usedNonces st k = Some t" and "now - t > NONCE_TTL"
  shows "cleanNonces now (st\<lparr>usedNonces := (usedNonces st)(k := None)\<rparr>) = cleanNonces now st"
proof -
  have "(\<lambda>nonce. case ((usedNonces st)(k := None)) nonce of
                    None \<Rightarrow> None
                  | Some time \<Rightarrow> if now - time > NONCE_TTL then None else Some time)
        = (\<lambda>nonce. case usedNonces st nonce of
                    None \<Rightarrow> None
                  | Some time \<Rightarrow> if now - time > NONCE_TTL then None else Some time)"
    using assms by (auto simp: fun_eq_iff)
  then show ?thesis
    by (simp add: cleanNonces_def)
qed

lemma post_verify_expired_nonce:
  assumes "usedNonces st k = Some t" and "now - t > NONCE_TTL"
  shows "post_verify L now req st
         = post_verify L now req (st\<lparr>usedNonces := (usedNonces st)(k := None)\<rparr>)"
  using cleanNonces_expired [OF assms] by (rule post_verify_cleaned [symmetric])

text \<open>
  \<^bold>\<open>C9, as stated.\<close> That a request whose nonce is in the store of used nonces gets the
  replay rejection and leaves the trust state as it was does not hold of a nonce that has been
  in the store for more than \<open>NONCE_TTL\<close>: \<^verbatim>\<open>cleanNonces\<close> runs first and removes it. The
  server that answered the example request at time 1000000 holds its nonce with that time. The
  same request at time 1120001 is answered with a token, and the trust state of the
  fingerprint has a new \<open>lastSeen\<close> and a new window of request times.
\<close>

theorem stale_nonce_is_processed:
  "usedNonces served_server (field_value (body_nonce example_request)) = Some 1000000
   \<and> trustMemory served_server (JString ''abc'')
       = Some \<lparr>score = 0, lastSeen = 1000000, requestTimes = [1000000]\<rparr>
   \<and> fst (post_verify example_lib 1120001 example_request served_server)
       = Response 200 (PayloadBody later_payload later_signature)
   \<and> trustMemory (snd (post_verify example_lib 1120001 example_request served_server))
         (JString ''abc'')
       = Some \<lparr>score = 0, lastSeen = 1120001, requestTimes = [1120001]\<rparr>"
  by (simp add: example_defs handler_defs)

text \<open>
  \<^bold>\<open>C9, as amended.\<close> When the body of a \<^verbatim>\<open>/verify\<close> request passes the guard and its
  nonce is recorded in \<open>usedNonces\<close> with a time no more than \<open>NONCE_TTL\<close> back (so that
  \<^verbatim>\<open>cleanNonces\<close> keeps it), the answer is 403 \<open>Replay detected\<close> and the trust memory is what
  it was: no trust state is created or changed, for this fingerprint or any other. The
  secret and its version are untouched too. A body that does not pass the guard is answered
  with 400 \<open>Malformed request\<close>, whatever the store holds, and the trust memory is what it was
  as well.
\<close>

theorem replay_leaves_trust_state_untouched:
  "(\<not> malformed req \<and> usedNonces st (field_value (body_nonce req)) = Some t
      \<and> now - t \<le> NONCE_TTL
      \<longrightarrow> fst (post_verify L now req st) = Response 403 (ErrorBody ''Replay detected'')
          \<and> trustMemory (snd (post_verify L now req st)) = trustMemory st
          \<and> SECRET (snd (post_verify L now req st)) = SECRET st
          \<and> SECRET_VERSION (snd (post_verify L now req st)) = SECRET_VERSION st)
   \<and> (malformed req
      \<longrightarrow> fst (post_verify L now req st) = Response 400 (ErrorBody ''Malformed request'')
          \<and> trustMemory (snd (post_verify L now req st)) = trustMemory st
          \<and> SECRET (snd (post_verify L now req st)) = SECRET st
          \<and> SECRET_VERSION (snd (post_verify L now req st)) = SECRET_VERSION st)"
proof (intro conjI impI)
  assume a: "\<not> malformed req \<and> usedNonces st (field_value (body_nonce req)) = Some t
             \<and> now - t \<le> NONCE_TTL"
  then have r: "post_verify L now req st
             = (Response 403 (ErrorBody ''Replay detected''), cleanNonces now st)"
    by (simp add: post_verify_used_nonce)
  show "fst (post_verify L now req st) = Response 403 (ErrorBody ''Replay detected'')"
    "trustMemory (snd (post_verify L now req st)) = trustMemory st"
    "SECRET (snd (post_verify L now req st)) = SECRET st"
    "SECRET_VERSION (snd (post_verify L now req st)) = SECRET_VERSION st"
    by (simp_all add: r cleanNonces_frame)
next
  assume "malformed req"
  then have r: "post_verify L now req st
             = (Response 400 (ErrorBody ''Malformed request''), cleanNonces now st)"
    by (rule post_verify_malformed)
  show "fst (post_verify L now req st) = Response 400 (ErrorBody ''Malformed request'')"
    "trustMemory (snd (post_verify L now req st)) = trustMemory st"
    "SECRET (snd (post_verify L now req st)) = SECRET st"
    "SECRET_VERSION (snd (post_verify L now req st)) = SECRET_VERSION st"
    by (simp_all add: r cleanNonces_frame)
qed

theorem replay_leaves_trust_state_untouched_witness:
  "\<not> malformed example_request
   \<and> usedNonces served_server (field_value (body_nonce example_request)) = Some 1000000
   \<and> fst (post_verify example_lib 1120000 example_request served_server)
       = Response 403 (ErrorBody ''Replay detected'')
   \<and> trustMemory (snd (post_verify example_lib 1120000 example_request served_server))
       = trustMemory served_server
   \<and> malformed (example_request\<lparr>body_hash := None\<rparr>)
   \<and> fst (post_verify example_lib 1120000 (example_request\<lparr>body_hash := None\<rparr>) served_server)
       = Response 400 (ErrorBody ''Malformed request'')
   \<and> trustMemory (snd (post_verify example_lib 1120000 (example_request\<lparr>body_hash := None\<rparr>)
                          served_server))
       = trustMemory served_server"
proof -
  note th = replay_leaves_trust_state_untouched
  have wf: "\<not> malformed example_request"
    "usedNonces served_server (field_value (body_nonce example_request)) = Some 1000000"
    "malformed (example_request\<lparr>body_hash := None\<rparr>)"
    by (simp_all add: example_defs malformed_def falsy_value_def field_value_def)
  have a: "fst (post_verify example_lib 1120000 example_request served_server)
             = Response 403 (ErrorBody ''Replay detected'')
           \<and> trustMemory (snd (post_verify example_lib 1120000 example_request served_server))
             = trustMemory served_server"
    using th [THEN conjunct1, of example_request served_server 1000000 1120000 example_lib] wf
    by (simp add: NONCE_TTL_def)
  have b: "fst (post_verify example_lib 1120000 (example_request\<lparr>body_hash := None\<rparr>)
                  served_server)
             = Response 400 (ErrorBody ''Malformed request'')
           \<and> trustMemory (snd (post_verify example_lib 1120000
                                  (example_request\<lparr>body_hash := None\<rparr>) served_server))
             = trustMemory served_server"
    using th [THEN conjunct2, of "example_request\<lparr>body_hash := None\<rparr>" example_lib 1120000
                served_server] wf
    by simp
  show ?thesis
    using a b wf by simp
qed

lemma sab_post_verify_200:
  assumes "sab_post_verify L now req st = (Response 200 b, st')"
  shows "\<exists>c. sab_body_challenge req = Some c \<and> activeChallenges st' c = None
             \<and> sab_body_nonce req \<in> sab_usedNonces st'"
  using assms
  by (auto simp: sab_post_verify_def Let_def split: option.splits if_splits)

lemma sab_post_verify_absent:
  assumes "\<forall>c. sab_body_challenge req = Some c \<longrightarrow> activeChallenges st c = None"
  shows "sab_post_verify L now req st = (Response 403 (ErrorBody ''Invalid challenge''), st)"
  using assms
  by (auto simp: sab_post_verify_def Let_def split: option.splits)

lemma sab_post_verify_used_nonce:
  assumes "sab_body_challenge req = Some c"
    and "activeChallenges st c = Some issued"
    and "now - issued \<le> sab_CHALLENGE_TTL"
    and "sab_body_hash req = Some (sha256 L (c @ js_string (sab_body_nonce req)))"
    and "startsWith (sha256 L (c @ js_string (sab_body_nonce req))) (replicate 4 CHR ''0'')"
    and "sab_body_nonce req \<in> sab_usedNonces st"
  shows "sab_post_verify L now req st = (Response 403 (ErrorBody ''Replay detected''), st)"
  using assms
  by (simp add: sab_post_verify_def Let_def)

text \<open>
  \<^bold>\<open>C3, as stated.\<close> That the second submission always yields the replay error does not
  hold: \<^verbatim>\<open>cleanNonces\<close> drops a nonce once it is older than \<open>NONCE_TTL\<close>, and the
  engine keeps no other record of it. The example request is answered with a token at time
  1000000 and, submitted again at time 1120001, with a token again.
\<close>

theorem replay_accepted_after_nonce_ttl:
  "fst (post_verify example_lib 1000000 example_request example_server)
     = Response 200 (PayloadBody example_payload example_signature)
   \<and> fst (post_verify example_lib 1120001 example_request
            (snd (post_verify example_lib 1000000 example_request example_server)))
     = Response 200 (PayloadBody later_payload later_signature)"
  by (simp add: example_first_call) (simp add: example_defs handler_defs)

text \<open>
  \<^bold>\<open>C3, as amended.\<close> In the adaptive engine, let the first call get past the
  proof-of-work checks at time \<open>t1\<close> (it is answered with status 200: a token or
  \<open>shadow_throttled\<close>), with a nonce that is a string, a number or a boolean, which the map of
  used nonces finds by its value. A second call with the same nonce and a body that passes the
  guard, at a time \<open>t2\<close> with \<open>t2 - t1 \<le> NONCE_TTL\<close>, is answered with 403
  \<open>Replay detected\<close>. At a time \<open>t2\<close> with \<open>t2 - t1 > NONCE_TTL\<close> the record of the
  first call is gone: every request is answered, and leaves the server in the state, as if the
  first call had not recorded its nonce. In secureAntiBot, where used nonces are kept for
  ever, a call answered with status 200 consumes its challenge: the same request again, at any
  time, is answered with 403 \<open>Invalid challenge\<close>; the replay error is the answer there to a
  used nonce that comes with valid proof of work for a challenge that is still active.
\<close>

theorem replay_within_nonce_ttl:
  "(post_verify L t1 req st = (Response 200 b, st1) \<and> body_nonce req2 = body_nonce req
      \<and> \<not> is_object (field_value (body_nonce req))
      \<and> \<not> malformed req2 \<and> t2 - t1 \<le> NONCE_TTL
      \<longrightarrow> fst (post_verify L t2 req2 st1) = Response 403 (ErrorBody ''Replay detected''))
   \<and> (post_verify L t1 req st = (Response 200 b, st1) \<and> t2 - t1 > NONCE_TTL
      \<longrightarrow> post_verify L t2 req3 st1
            = post_verify L t2 req3
                (st1\<lparr>usedNonces := (usedNonces st1)(field_value (body_nonce req) := None)\<rparr>))
   \<and> (sab_post_verify M u1 sreq sst = (Response 200 sb, sst1)
      \<longrightarrow> fst (sab_post_verify M u2 sreq sst1) = Response 403 (ErrorBody ''Invalid challenge''))
   \<and> (sab_body_challenge sreq2 = Some c \<and> activeChallenges sst2 c = Some issued
      \<and> u - issued \<le> sab_CHALLENGE_TTL
      \<and> sab_body_hash sreq2 = Some (sha256 M (c @ js_string (sab_body_nonce sreq2)))
      \<and> startsWith (sha256 M (c @ js_string (sab_body_nonce sreq2))) (replicate 4 CHR ''0'')
      \<and> sab_body_nonce sreq2 \<in> sab_usedNonces sst2
      \<longrightarrow> fst (sab_post_verify M u sreq2 sst2) = Response 403 (ErrorBody ''Replay detected''))"
proof (intro conjI impI)
  assume a: "post_verify L t1 req st = (Response 200 b, st1) \<and> body_nonce req2 = body_nonce req
      \<and> \<not> is_object (field_value (body_nonce req))
      \<and> \<not> malformed req2 \<and> t2 - t1 \<le> NONCE_TTL"
  then have "usedNonces st1 (field_value (body_nonce req2)) = Some t1"
    using post_verify_200 [of L t1 req st b st1] by simp
  then show "fst (post_verify L t2 req2 st1) = Response 403 (ErrorBody ''Replay detected'')"
    using a by (simp add: post_verify_used_nonce)
next
  assume a: "post_verify L t1 req st = (Response 200 b, st1) \<and> t2 - t1 > NONCE_TTL"
  then have u: "usedNonces st1 (field_value (body_nonce req)) = Some t1"
    using post_verify_200 [of L t1 req st b st1] by simp
  have g: "t2 - t1 > NONCE_TTL"
    using a by simp
  show "post_verify L t2 req3 st1
            = post_verify L t2 req3
                (st1\<lparr>usedNonces := (usedNonces st1)(field_value (body_nonce req) := None)\<rparr>)"
    by (rule post_verify_expired_nonce [OF u g])
next
  assume "sab_post_verify M u1 sreq sst = (Response 200 sb, sst1)"
  then have "\<forall>c. sab_body_challenge sreq = Some c \<longrightarrow> activeChallenges sst1 c = None"
    using sab_post_verify_200 [of M u1 sreq sst sb sst1] by auto
  then show "fst (sab_post_verify M u2 sreq sst1) = Response 403 (ErrorBody ''Invalid challenge'')"
    by (simp add: sab_post_verify_absent)
next
  assume "sab_body_challenge sreq2 = Some c \<and> activeChallenges sst2 c = Some issued
      \<and> u - issued \<le> sab_CHALLENGE_TTL
      \<and> sab_body_hash sreq2 = Some (sha256 M (c @ js_string (sab_body_nonce sreq2)))
      \<and> startsWith (sha256 M (c @ js_string (sab_body_nonce sreq2))) (replicate 4 CHR ''0'')
      \<and> sab_body_nonce sreq2 \<in> sab_usedNonces sst2"
  then show "fst (sab_post_verify M u sreq2 sst2) = Response 403 (ErrorBody ''Replay detected'')"
    by (simp add: sab_post_verify_used_nonce)
qed

text \<open>
  The amended claim is about nonces the map finds by value. A nonce that is an array is a key
  by its identity, and no later request holds the array of an earlier one: the body of the
  example with its nonce in an array, sent at time 1000000 and again half a second later, is
  answered with a token both times. So is a nonce sent as the number 4242 and then as the
  string \<^verbatim>\<open>4242\<close>, which give the same text to hash and are two keys.
\<close>

lemma array_nonce_is_not_found_again:
  "fst (post_verify example_lib 1000000 (array_request 1) example_server)
     = Response 200 (PayloadBody example_payload example_signature)
   \<and> fst (post_verify example_lib 1000500 (array_request 2)
            (snd (post_verify example_lib 1000000 (array_request 1) example_server)))
     = Response 200 (PayloadBody replayed_payload replayed_signature)"
  by (simp add: array_request_def example_defs handler_defs)

lemma number_and_string_are_two_nonces:
  "fst (post_verify example_lib 1000000 (numeric_request (JNumber 4242)) example_server)
     = Response 200 (PayloadBody example_payload example_signature)
   \<and> fst (post_verify example_lib 1000500 (numeric_request (JString ''4242''))
            (snd (post_verify example_lib 1000000 (numeric_request (JNumber 4242))
                    example_server)))
     = Response 200 (PayloadBody replayed_payload replayed_signature)"
  by (simp add: numeric_request_def example_defs handler_defs)

subsection \<open>The examples of the in-memory server\<close>

lemma example_signals_risk: "computeRisk_signals (Some example_signals) = 0"
  by (simp add: computeRisk_signals_def example_signals_def test_i_def toLower_def str_def
      Let_def startsWith_def)

lemma sab_example_sha256:
  "sha256 sab_example_lib (example_challenge @ js_string (Some ''169435'')) = example_hash4"
  by (simp add: sha256_def sab_example_lib_def js_string_def example_challenge_def)

lemma example_hash4_zeros: "startsWith example_hash4 (replicate 4 CHR ''0'')"
  by (simp add: startsWith_def example_hash4_def replicate_numeral)

lemma sab_example_sign:
  "sign sab_example_lib hex_secret \<lparr>token_ip = ''203.0.113.7'', token_timestamp = 1000000\<rparr>
     = sab_example_signature"
  by (simp add: sign_def sab_example_lib_def sab_example_token_def)

lemma sab_example_first_call:
  "sab_post_verify sab_example_lib 1000000 sab_example_request sab_example_server
     = (Response 200 (TokenBody sab_example_token sab_example_signature),
        sab_example_server\<lparr>sab_usedNonces := {Some ''169435''}, activeChallenges := Map.empty\<rparr>)"
  by (simp add: sab_post_verify_def Let_def sab_example_request_def sab_example_server_def
      example_signals_risk sab_example_sha256 example_hash4_zeros sab_example_sign
      sab_CHALLENGE_TTL_def sab_example_token_def)

theorem replay_within_nonce_ttl_witness:
  "post_verify example_lib 1000000 example_request example_server
     = (Response 200 (PayloadBody example_payload example_signature), served_server)
   \<and> fst (post_verify example_lib 1120000 example_request served_server)
       = Response 403 (ErrorBody ''Replay detected'')
   \<and> post_verify example_lib 1120001 example_request served_server
       = post_verify example_lib 1120001 example_request
           (served_server\<lparr>usedNonces := (usedNonces served_server)(JString example_nonce := None)\<rparr>)
   \<and> sab_post_verify sab_example_lib 1000000 sab_example_request sab_example_server
       = (Response 200 (TokenBody sab_example_token sab_example_signature),
          sab_example_server\<lparr>sab_usedNonces := {Some ''169435''}, activeChallenges := Map.empty\<rparr>)
   \<and> fst (sab_post_verify sab_example_lib 1000001 sab_example_request
            (sab_example_server\<lparr>sab_usedNonces := {Some ''169435''},
                                 activeChallenges := Map.empty\<rparr>))
       = Response 403 (ErrorBody ''Invalid challenge'')
   \<and> fst (sab_post_verify sab_example_lib 1000001 sab_example_request
            (sab_example_server\<lparr>sab_usedNonces := {Some ''169435''}\<rparr>))
       = Response 403 (ErrorBody ''Replay detected'')"
proof -
  have wf: "\<not> malformed example_request"
    "\<not> is_object (field_value (body_nonce example_request))"
    "field_value (body_nonce example_request) = JString example_nonce"
    by (simp_all add: malformed_def falsy_value_def field_value_def example_request_def
        example_nonce_def example_hash3_def)
  have a: "fst (post_verify example_lib 1120000 example_request served_server)
             = Response 403 (ErrorBody ''Replay detected'')"
    using replay_within_nonce_ttl
            [THEN conjunct1, of example_lib 1000000 example_request example_server
               "PayloadBody example_payload example_signature" served_server
               example_request 1120000]
      example_first_call wf
    by (simp add: NONCE_TTL_def)
  have a': "post_verify example_lib 1120001 example_request served_server
       = post_verify example_lib 1120001 example_request
           (served_server\<lparr>usedNonces := (usedNonces served_server)(JString example_nonce := None)\<rparr>)"
    using replay_within_nonce_ttl
            [THEN conjunct2, THEN conjunct1, of example_lib 1000000 example_request
               example_server "PayloadBody example_payload example_signature" served_server
               1120001 example_request]
      example_first_call wf
    by (simp add: NONCE_TTL_def)
  have b: "fst (sab_post_verify sab_example_lib 1000001 sab_example_request
                  (sab_example_server\<lparr>sab_usedNonces := {Some ''169435''},
                                       activeChallenges := Map.empty\<rparr>))
             = Response 403 (ErrorBody ''Invalid challenge'')"
    using replay_within_nonce_ttl
            [THEN conjunct2, THEN conjunct2, THEN conjunct1, of sab_example_lib 1000000
               sab_example_request sab_example_server
               "TokenBody sab_example_token sab_example_signature"
               "sab_example_server\<lparr>sab_usedNonces := {Some ''169435''},
                                    activeChallenges := Map.empty\<rparr>" 1000001]
      sab_example_first_call
    by simp
  have c: "fst (sab_post_verify sab_example_lib 1000001 sab_example_request
                  (sab_example_server\<lparr>sab_usedNonces := {Some ''169435''}\<rparr>))
             = Response 403 (ErrorBody ''Replay detected'')"
    using replay_within_nonce_ttl
            [THEN conjunct2, THEN conjunct2, THEN conjunct2, of sab_example_request
               example_challenge
               "sab_example_server\<lparr>sab_usedNonces := {Some ''169435''}\<rparr>" 990000 1000001
               sab_example_lib]
      sab_example_sha256 example_hash4_zeros
    by (simp add: sab_example_request_def sab_example_server_def sab_CHALLENGE_TTL_def)
  show ?thesis
    using a a' b c example_first_call sab_example_first_call by simp
qed

subsection \<open>Tokens\<close>

lemma verifySignature_eq:
  "verifySignature L secret payload signature
     = (if length signature \<noteq> length (sign L secret payload) then Inl RangeError
        else Inr (signature = sign L secret payload))"
  by (simp add: verifySignature_def timingSafeEqual_def Let_def)

lemma post_protected_eq:
  assumes "body_payload req = Some payload" and "body_signature req = Some signature"
    and "signature \<noteq> []"
  shows "post_protected L now req st
         = (if length signature \<noteq> length (sign L (SECRET st) payload) then Threw RangeError
            else if signature \<noteq> sign L (SECRET st) payload
            then Response 403 (ErrorBody ''Invalid signature'')
            else if now > payload_exp payload then Response 403 (ErrorBody ''Token expired'')
            else if payload_ip payload \<noteq> req_ip req then Response 403 (ErrorBody ''IP mismatch'')
            else Response 200 SuccessBody)"
  using assms
  by (simp add: post_protected_def verifySignature_eq falsy_def str_def)

text \<open>
  \<^bold>\<open>C7.\<close> Let \<^verbatim>\<open>/verify\<close> issue a token at time \<open>now\<close>, and let the token come back
  to \<^verbatim>\<open>/protected\<close> from the address it was issued to while the secret is the one it was
  signed with (HMAC digests being 64 characters long). Then the call succeeds at time
  \<open>now + 1\<close>, and at every time up to \<open>now + TOKEN_TTL\<close>; at every time after
  \<open>now + TOKEN_TTL\<close> the answer is 403 \<open>Token expired\<close>; and with any other signature of the
  same length in its place, as when one byte of it is changed, the answer is 403
  \<open>Invalid signature\<close> at every time.
\<close>

theorem token_round_trip:
  assumes "\<forall>key data. length (hmac_sha256_hex L key data) = 64"
    and "post_verify L now req st = (Response 200 (PayloadBody payload signature), st1)"
    and "SECRET st2 = SECRET st1"
    and "body_payload req2 = Some payload" and "req_ip req2 = req_ip req"
  shows "(body_signature req2 = Some signature \<longrightarrow>
            post_protected L (now + 1) req2 st2 = Response 200 SuccessBody
            \<and> (t \<le> now + TOKEN_TTL \<longrightarrow> post_protected L t req2 st2 = Response 200 SuccessBody)
            \<and> (now + TOKEN_TTL < t \<longrightarrow>
                  post_protected L t req2 st2 = Response 403 (ErrorBody ''Token expired'')))
         \<and> (body_signature req2 = Some tampered \<and> length tampered = length signature
              \<and> tampered \<noteq> signature \<longrightarrow>
              post_protected L t req2 st2 = Response 403 (ErrorBody ''Invalid signature''))"
proof -
  have tok: "payload_exp payload = now + TOKEN_TTL" "payload_ip payload = req_ip req"
    "signature = sign L (SECRET st1) payload"
    using post_verify_token [OF assms(2)] by simp_all
  have len: "length signature = 64"
    using assms(1) tok(3) by (simp add: sign_def)
  then have ne: "signature \<noteq> []"
    by auto
  have sg: "sign L (SECRET st2) payload = signature"
    using tok(3) assms(3) by simp
  show ?thesis
  proof (intro conjI impI)
    assume s: "body_signature req2 = Some signature"
    show "post_protected L (now + 1) req2 st2 = Response 200 SuccessBody"
      using post_protected_eq [OF assms(4) s ne] sg tok assms(5)
      by (simp add: TOKEN_TTL_def)
    show "post_protected L t req2 st2 = Response 200 SuccessBody" if "t \<le> now + TOKEN_TTL"
      using post_protected_eq [OF assms(4) s ne] sg tok assms(5) that by simp
    show "post_protected L t req2 st2 = Response 403 (ErrorBody ''Token expired'')"
      if "now + TOKEN_TTL < t"
      using post_protected_eq [OF assms(4) s ne] sg tok assms(5) that by simp
  next
    assume t: "body_signature req2 = Some tampered \<and> length tampered = length signature
              \<and> tampered \<noteq> signature"
    then have "tampered \<noteq> []"
      using len by auto
    then show "post_protected L t req2 st2 = Response 403 (ErrorBody ''Invalid signature'')"
      using post_protected_eq [of req2 payload tampered L t st2] assms(4) t sg by simp
  qed
qed

lemma example_lib_digest_length:
  "\<forall>key data. length (hmac_sha256_hex example_lib key data) = 64"
  by (simp add: example_lib_def example_signature_def later_signature_def
      rotated_signature_def replayed_signature_def)

theorem token_round_trip_witness:
  "post_verify example_lib 1000000 example_request example_server
     = (Response 200 (PayloadBody example_payload example_signature), served_server)
   \<and> post_protected example_lib 1000001 token_request served_server = Response 200 SuccessBody
   \<and> post_protected example_lib 1060000 token_request served_server = Response 200 SuccessBody
   \<and> post_protected example_lib 1060001 token_request served_server
       = Response 403 (ErrorBody ''Token expired'')
   \<and> post_protected example_lib 1000001
        (token_request\<lparr>body_signature := Some (example_signature[0 := CHR ''3''])\<rparr>)
        served_server
       = Response 403 (ErrorBody ''Invalid signature'')"
proof -
  have p: "body_payload token_request = Some example_payload"
    "req_ip token_request = req_ip example_request"
    "body_signature token_request = Some example_signature"
    by (simp_all add: token_request_def example_request_def)
  note rt = token_round_trip [OF example_lib_digest_length example_first_call refl]
  have a: "post_protected example_lib 1000001 token_request served_server
             = Response 200 SuccessBody"
    using rt [OF p(1,2), of 1060000] p(3) by simp
  have b: "post_protected example_lib 1060000 token_request served_server
             = Response 200 SuccessBody"
    using rt [OF p(1,2), of 1060000] p(3) by (simp add: TOKEN_TTL_def)
  have c: "post_protected example_lib 1060001 token_request served_server
             = Response 403 (ErrorBody ''Token expired'')"
    using rt [OF p(1,2), of 1060001] p(3) by (simp add: TOKEN_TTL_def)
  have d: "post_protected example_lib 1000001
             (token_request\<lparr>body_signature := Some (example_signature[0 := CHR ''3''])\<rparr>)
             served_server
           = Response 403 (ErrorBody ''Invalid signature'')"
    using rt [of "token_request\<lparr>body_signature := Some (example_signature[0 := CHR ''3''])\<rparr>"
                 1000001 "example_signature[0 := CHR ''3'']"]
    by (simp add: token_request_def example_request_def example_signature_def)
  show ?thesis
    using a b c d example_first_call by simp
qed

text \<open>
  \<^bold>\<open>C8.\<close> Let \<^verbatim>\<open>/verify\<close> issue a token, and let the secret be rotated afterwards to a
  secret under which the payload has another HMAC. Then \<^verbatim>\<open>/protected\<close> answers the token
  with 403 \<open>Invalid signature\<close> at every time, within the token's lifetime or after it, and
  whatever address presents it: the signature is checked before the expiry. The token carries
  the version it was issued under, and the rotation has incremented the server's.
\<close>

theorem rotation_invalidates_token:
  assumes "\<forall>key data. length (hmac_sha256_hex L key data) = 64"
    and "post_verify L now req st = (Response 200 (PayloadBody payload signature), st1)"
    and "sign L fresh payload \<noteq> sign L (SECRET st1) payload"
    and "body_payload req2 = Some payload" and "body_signature req2 = Some signature"
  shows "post_protected L t req2 (rotateSecret fresh st1)
           = Response 403 (ErrorBody ''Invalid signature'')
         \<and> payload_v payload = SECRET_VERSION st1
         \<and> SECRET_VERSION (rotateSecret fresh st1) = SECRET_VERSION st1 + 1"
proof -
  have tok: "signature = sign L (SECRET st1) payload" "payload_v payload = SECRET_VERSION st"
    using post_verify_token [OF assms(2)] by simp_all
  have v: "SECRET_VERSION st1 = SECRET_VERSION st"
    using post_verify_200 [OF assms(2)] by simp
  have len: "length signature = 64" "length (sign L fresh payload) = 64"
    using assms(1) tok(1) by (simp_all add: sign_def)
  then have ne: "signature \<noteq> []"
    by auto
  have "post_protected L t req2 (rotateSecret fresh st1)
          = Response 403 (ErrorBody ''Invalid signature'')"
    using post_protected_eq [OF assms(4,5) ne, of L t "rotateSecret fresh st1"] len assms(3) tok(1)
    by (simp add: rotateSecret_def)
  then show ?thesis
    using tok(2) v by (simp add: rotateSecret_def)
qed

theorem rotation_invalidates_token_witness:
  "post_verify example_lib 1000000 example_request example_server
     = (Response 200 (PayloadBody example_payload example_signature), served_server)
   \<and> sign example_lib rotated_secret example_payload = rotated_signature
   \<and> sign example_lib (SECRET served_server) example_payload = example_signature
   \<and> rotated_signature \<noteq> example_signature
   \<and> SECRET_VERSION served_server = 1
   \<and> SECRET_VERSION (rotateSecret rotated_secret served_server) = 2
   \<and> post_protected example_lib 1000001 token_request (rotateSecret rotated_secret served_server)
       = Response 403 (ErrorBody ''Invalid signature'')"
proof -
  have s: "sign example_lib rotated_secret example_payload = rotated_signature"
    "sign example_lib (SECRET served_server) example_payload = example_signature"
    by (simp_all add: sign_def example_lib_def served_server_def example_secret_def
        rotated_secret_def)
  have d: "rotated_signature \<noteq> example_signature"
    by (simp add: rotated_signature_def example_signature_def)
  have p: "body_payload token_request = Some example_payload"
    "body_signature token_request = Some example_signature"
    by (simp_all add: token_request_def)
  show ?thesis
    using rotation_invalidates_token
            [OF example_lib_digest_length example_first_call _ p, of rotated_secret 1000001]
      s d example_first_call
    by (simp add: served_server_def)
qed

text \<open>
  \<^bold>\<open>C10.\<close> \<^verbatim>\<open>verifySignature\<close> returns a truth value exactly when the signature it is
  given has the length of the expected digest, and throws a RangeError otherwise. In the
  adaptive engine a \<^verbatim>\<open>/protected\<close> request with a payload and a signature of another
  length (not empty, which the guard answers with 400) ends in that exception, not in a 403
  response; with HMAC digests 64 characters long, that is every signature whose length is
  not 64. The two other servers call the same function without a guard, so there every
  signature of another length, the empty one included, ends in the exception.
\<close>

theorem signature_of_other_length_throws:
  "(length signature \<noteq> length (sign L secret payload)
      \<longrightarrow> verifySignature L secret payload signature = Inl RangeError)
   \<and> (length signature = length (sign L secret payload)
      \<longrightarrow> verifySignature L secret payload signature
            = Inr (signature = sign L secret payload))
   \<and> (body_payload req = Some p \<and> body_signature req = Some sg \<and> sg \<noteq> []
       \<and> length sg \<noteq> length (sign L1 (SECRET st) p)
      \<longrightarrow> post_protected L1 now req st = Threw RangeError)
   \<and> ((\<forall>key data. length (hmac_sha256_hex L1 key data) = 64)
       \<and> body_payload req = Some p \<and> body_signature req = Some sg \<and> sg \<noteq> []
       \<and> length sg \<noteq> 64
      \<longrightarrow> post_protected L1 now req st = Threw RangeError)
   \<and> (sab_body_token req2 = Some p2 \<and> sab_body_signature req2 = Some sg
       \<and> length sg \<noteq> length (sign L2 (sab_SECRET st2) p2)
      \<longrightarrow> sab_post_protected L2 now req2 st2 = Threw RangeError)
   \<and> (srv_body_token req3 = Some p3 \<and> srv_body_signature req3 = Some sg
       \<and> length sg \<noteq> length (sign L3 (srv_SECRET st3) p3)
      \<longrightarrow> srv_post_protected L3 now req3 st3 = Threw RangeError)"
proof (intro conjI impI)
  assume "length signature \<noteq> length (sign L secret payload)"
  then show "verifySignature L secret payload signature = Inl RangeError"
    by (simp add: verifySignature_eq)
next
  assume "length signature = length (sign L secret payload)"
  then show "verifySignature L secret payload signature
               = Inr (signature = sign L secret payload)"
    by (simp add: verifySignature_eq)
next
  assume "body_payload req = Some p \<and> body_signature req = Some sg \<and> sg \<noteq> []
          \<and> length sg \<noteq> length (sign L1 (SECRET st) p)"
  then show "post_protected L1 now req st = Threw RangeError"
    by (simp add: post_protected_eq)
next
  assume a: "(\<forall>key data. length (hmac_sha256_hex L1 key data) = 64)
          \<and> body_payload req = Some p \<and> body_signature req = Some sg \<and> sg \<noteq> []
          \<and> length sg \<noteq> 64"
  then have "length (sign L1 (SECRET st) p) = 64"
    by (simp add: sign_def)
  then show "post_protected L1 now req st = Threw RangeError"
    using a by (simp add: post_protected_eq)
next
  assume "sab_body_token req2 = Some p2 \<and> sab_body_signature req2 = Some sg
          \<and> length sg \<noteq> length (sign L2 (sab_SECRET st2) p2)"
  then show "sab_post_protected L2 now req2 st2 = Threw RangeError"
    by (simp add: sab_post_protected_def verifySignature_eq)
next
  assume "srv_body_token req3 = Some p3 \<and> srv_body_signature req3 = Some sg
          \<and> length sg \<noteq> length (sign L3 (srv_SECRET st3) p3)"
  then show "srv_post_protected L3 now req3 st3 = Threw RangeError"
    by (simp add: srv_post_protected_def verifySignature_eq)
qed

lemma srv_example_sign:
  "sign srv_example_lib hex_secret \<lparr>srv_token_ip = ''203.0.113.7'', srv_token_issued = 1000000\<rparr>
     = srv_example_signature"
  by (simp add: sign_def srv_example_lib_def srv_example_token_def)

theorem signature_of_other_length_throws_witness:
  "verifySignature example_lib example_secret example_payload ''deadbeef'' = Inl RangeError
   \<and> verifySignature example_lib example_secret example_payload rotated_signature = Inr False
   \<and> post_protected example_lib 1000001
        (token_request\<lparr>body_signature := Some ''deadbeef''\<rparr>) served_server
       = Threw RangeError
   \<and> sab_post_protected sab_example_lib 1000001
        (sab_example_request\<lparr>sab_body_token := Some sab_example_token,
                              sab_body_signature := Some ''''\<rparr>)
        sab_example_server
       = Threw RangeError
   \<and> srv_post_protected srv_example_lib 1000001
        (srv_example_request\<lparr>srv_body_token := Some srv_example_token,
                              srv_body_signature := Some ''deadbeef''\<rparr>)
        srv_example_server
       = Threw RangeError"
proof -
  have s: "sign example_lib example_secret example_payload = example_signature"
    by (simp add: sign_def example_lib_def)
  have l: "length example_signature = 64" "length rotated_signature = 64"
    by (simp_all add: example_signature_def rotated_signature_def)
  have d: "rotated_signature \<noteq> example_signature"
    by (simp add: rotated_signature_def example_signature_def)
  have sab: "sign sab_example_lib (sab_SECRET sab_example_server) sab_example_token
               = sab_example_signature"
    using sab_example_sign by (simp add: sab_example_server_def sab_example_token_def)
  have srv: "sign srv_example_lib (srv_SECRET srv_example_server) srv_example_token
               = srv_example_signature"
    using srv_example_sign by (simp add: srv_example_server_def srv_example_token_def)
  have l2: "length sab_example_signature = 64" "length srv_example_signature = 64"
    by (simp_all add: sab_example_signature_def srv_example_signature_def)
  note th = signature_of_other_length_throws
  have a: "verifySignature example_lib example_secret example_payload ''deadbeef''
             = Inl RangeError"
    using th [THEN conjunct1, of "''deadbeef''" example_lib example_secret example_payload] s l
    by simp
  have b: "verifySignature example_lib example_secret example_payload rotated_signature
             = Inr False"
    using th [THEN conjunct2, THEN conjunct1,
              of rotated_signature example_lib example_secret example_payload] s l d
    by simp
  have c: "post_protected example_lib 1000001
             (token_request\<lparr>body_signature := Some ''deadbeef''\<rparr>) served_server
           = Threw RangeError"
    using th [THEN conjunct2, THEN conjunct2, THEN conjunct2, THEN conjunct1,
              of example_lib "token_request\<lparr>body_signature := Some ''deadbeef''\<rparr>"
                 example_payload "''deadbeef''" 1000001 served_server]
      example_lib_digest_length
    by (simp add: token_request_def)
  have c': "post_protected example_lib 1000001
             (token_request\<lparr>body_signature := Some ''deadbeef''\<rparr>) served_server
           = Threw RangeError"
    using th [THEN conjunct2, THEN conjunct2, THEN conjunct1,
              of "token_request\<lparr>body_signature := Some ''deadbeef''\<rparr>"
                 example_payload "''deadbeef''" example_lib served_server 1000001] s l
    by (simp add: token_request_def served_server_def)
  have e: "sab_post_protected sab_example_lib 1000001
             (sab_example_request\<lparr>sab_body_token := Some sab_example_token,
                                   sab_body_signature := Some ''''\<rparr>)
             sab_example_server
           = Threw RangeError"
    using th [THEN conjunct2, THEN conjunct2, THEN conjunct2, THEN conjunct2, THEN conjunct1,
              of "sab_example_request\<lparr>sab_body_token := Some sab_example_token,
                                        sab_body_signature := Some ''''\<rparr>"
                 sab_example_token "''''" sab_example_lib sab_example_server 1000001] sab l2
    by simp
  have f: "srv_post_protected srv_example_lib 1000001
             (srv_example_request\<lparr>srv_body_token := Some srv_example_token,
                                   srv_body_signature := Some ''deadbeef''\<rparr>)
             srv_example_server
           = Threw RangeError"
    using th [THEN conjunct2, THEN conjunct2, THEN conjunct2, THEN conjunct2, THEN conjunct2,
              of "srv_example_request\<lparr>srv_body_token := Some srv_example_token,
                                        srv_body_signature := Some ''deadbeef''\<rparr>"
                 srv_example_token "''deadbeef''" srv_example_lib srv_example_server 1000001]
      srv l2
    by simp
  show ?thesis
    using a b c c' e f by simp
qed

subsection \<open>Challenges that were not issued\<close>

lemma srv_post_verify_invalid:
  assumes "redis_get now (challenge_keys st) (js_string (srv_body_challenge req))
             \<noteq> Some (srv_req_ip req)"
  shows "srv_post_verify L now req st = (Response 403 (ErrorBody ''Invalid challenge''), st)"
  using assms
  by (simp add: srv_post_verify_def Let_def)

lemma srv_post_verify_bound:
  assumes "redis_get now (challenge_keys st) (js_string (srv_body_challenge req))
             = Some (srv_req_ip req)"
    and "srv_req_ip req \<noteq> []"
  shows "fst (srv_post_verify L now req st) \<noteq> Response 403 (ErrorBody ''Invalid challenge'')"
  using assms
  by (simp add: srv_post_verify_def Let_def falsy_def)

lemma sab_post_verify_present:
  assumes "sab_body_challenge req = Some c" and "activeChallenges st c = Some issued"
  shows "fst (sab_post_verify L now req st) \<noteq> Response 403 (ErrorBody ''Invalid challenge'')"
  using assms
  by (simp add: sab_post_verify_def Let_def)

lemma srv_get_challenge_stores:
  "redis_get t (challenge_keys (snd (srv_get_challenge random now req st))) random
     = (if t > now + 60000 then None else Some (srv_req_ip req))"
  by (simp add: srv_get_challenge_def Let_def redis_get_def srv_CHALLENGE_TTL_def)

text \<open>
  \<^bold>\<open>C2, as stated.\<close> The adaptive engine does not reject a nonce it never issued: its
  \<^verbatim>\<open>/challenge\<close> stores nothing, and \<^verbatim>\<open>/verify\<close> looks a nonce up in \<open>usedNonces\<close> only,
  where presence means replay. A server that has just started, with both maps empty, answers
  the example request with a token.
\<close>

theorem unissued_nonce_is_accepted:
  "usedNonces example_server (JString example_nonce) = None
   \<and> trustMemory example_server (JString ''abc'') = None
   \<and> fst (post_verify example_lib 1000000 example_request example_server)
       = Response 200 (PayloadBody example_payload example_signature)"
  by (simp add: example_first_call) (simp add: example_server_def)

text \<open>
  \<^bold>\<open>C2, as amended.\<close> In the Redis-backed server a \<^verbatim>\<open>/verify\<close> request is answered with
  403 \<open>Invalid challenge\<close>, the store unchanged, whenever the store does not return the
  requester's address for its challenge: the key is absent, expired or holds another address.
  So a challenge that \<^verbatim>\<open>/challenge\<close> issued to one address is refused when another address
  presents it, and when it is presented more than 60 seconds later. In secureAntiBot the
  request is answered so whenever its challenge is not a key of \<open>activeChallenges\<close>; no
  binding is recorded there, and a challenge that is a key is not refused as invalid whoever
  presents it. The adaptive engine never answers \<open>Invalid challenge\<close>.
\<close>

theorem invalid_challenge_rejections:
  "(redis_get now (challenge_keys st) (js_string (srv_body_challenge req)) \<noteq> Some (srv_req_ip req)
      \<longrightarrow> srv_post_verify L now req st = (Response 403 (ErrorBody ''Invalid challenge''), st))
   \<and> (srv_body_challenge req = Some random
       \<and> (srv_req_ip req \<noteq> srv_req_ip req0 \<or> now > t0 + 60000)
      \<longrightarrow> fst (srv_post_verify L now req (snd (srv_get_challenge random t0 req0 st)))
            = Response 403 (ErrorBody ''Invalid challenge''))
   \<and> (redis_get now (challenge_keys st) (js_string (srv_body_challenge req)) = Some (srv_req_ip req)
       \<and> srv_req_ip req \<noteq> []
      \<longrightarrow> fst (srv_post_verify L now req st) \<noteq> Response 403 (ErrorBody ''Invalid challenge''))
   \<and> ((\<forall>c. sab_body_challenge req2 = Some c \<longrightarrow> activeChallenges st2 c = None)
      \<longrightarrow> sab_post_verify L2 now req2 st2 = (Response 403 (ErrorBody ''Invalid challenge''), st2))
   \<and> (sab_body_challenge req2 = Some c \<and> activeChallenges st2 c = Some issued
      \<longrightarrow> fst (sab_post_verify L2 now req2 st2) \<noteq> Response 403 (ErrorBody ''Invalid challenge''))
   \<and> fst (post_verify L3 now req3 st3) \<noteq> Response 403 (ErrorBody ''Invalid challenge'')"
proof (intro conjI impI)
  assume "redis_get now (challenge_keys st) (js_string (srv_body_challenge req))
            \<noteq> Some (srv_req_ip req)"
  then show "srv_post_verify L now req st = (Response 403 (ErrorBody ''Invalid challenge''), st)"
    by (rule srv_post_verify_invalid)
next
  assume a: "srv_body_challenge req = Some random
             \<and> (srv_req_ip req \<noteq> srv_req_ip req0 \<or> now > t0 + 60000)"
  let ?st = "snd (srv_get_challenge random t0 req0 st)"
  have "redis_get now (challenge_keys ?st) (js_string (srv_body_challenge req))
          \<noteq> Some (srv_req_ip req)"
    using a by (auto simp: srv_get_challenge_stores js_string_def)
  then show "fst (srv_post_verify L now req ?st) = Response 403 (ErrorBody ''Invalid challenge'')"
    by (simp add: srv_post_verify_invalid)
next
  assume "redis_get now (challenge_keys st) (js_string (srv_body_challenge req))
            = Some (srv_req_ip req) \<and> srv_req_ip req \<noteq> []"
  then show "fst (srv_post_verify L now req st) \<noteq> Response 403 (ErrorBody ''Invalid challenge'')"
    by (simp add: srv_post_verify_bound)
next
  assume "\<forall>c. sab_body_challenge req2 = Some c \<longrightarrow> activeChallenges st2 c = None"
  then show "sab_post_verify L2 now req2 st2
               = (Response 403 (ErrorBody ''Invalid challenge''), st2)"
    by (rule sab_post_verify_absent)
next
  assume "sab_body_challenge req2 = Some c \<and> activeChallenges st2 c = Some issued"
  then show "fst (sab_post_verify L2 now req2 st2)
               \<noteq> Response 403 (ErrorBody ''Invalid challenge'')"
    by (simp add: sab_post_verify_present)
next
  show "fst (post_verify L3 now req3 st3) \<noteq> Response 403 (ErrorBody ''Invalid challenge'')"
    by (rule post_verify_never_invalid_challenge)
qed

subsection \<open>The examples of the Redis-backed server\<close>

lemma js_string_Some: "js_string (Some s) = s"
  by (simp add: js_string_def)

lemma srv_example_sha256:
  "sha256 srv_example_lib (example_challenge @ ''169435'') = example_hash4"
  by (simp add: sha256_def srv_example_lib_def example_challenge_def)

lemma srv_example_first_call:
  "srv_post_verify srv_example_lib 1000000 srv_example_request srv_example_server
     = (Response 200 (TokenBody srv_example_token srv_example_signature),
        srv_example_server
          \<lparr>nonce_keys := [''169435'' \<mapsto> (''1'', 1060000)],
           challenge_keys := Map.empty,
           rate_keys := [''203.0.113.7'' \<mapsto> (1, 1060000)]\<rparr>)"
  by (simp add: srv_post_verify_def Let_def srv_example_request_def srv_example_server_def
      example_signals_risk srv_example_sha256 example_hash4_zeros srv_example_sign
      srv_CHALLENGE_TTL_def srv_example_token_def dynamicDifficulty_def redis_get_def
      srv_BASE_DIFFICULTY_def MAX_DIFFICULTY_def falsy_def incr_rate_def js_string_Some)

theorem invalid_challenge_rejections_witness:
  "srv_post_verify srv_example_lib 1000000
       (srv_example_request\<lparr>srv_req_ip := ''198.51.100.9''\<rparr>) srv_example_server
     = (Response 403 (ErrorBody ''Invalid challenge''), srv_example_server)
   \<and> fst (srv_post_verify srv_example_lib 1060001 srv_example_request
            (snd (srv_get_challenge example_challenge 1000000 srv_example_request
                    srv_example_server)))
     = Response 403 (ErrorBody ''Invalid challenge'')
   \<and> fst (srv_post_verify srv_example_lib 1000000 srv_example_request srv_example_server)
     \<noteq> Response 403 (ErrorBody ''Invalid challenge'')
   \<and> sab_post_verify sab_example_lib 1000000
       (sab_example_request\<lparr>sab_body_challenge := Some ''0123''\<rparr>) sab_example_server
     = (Response 403 (ErrorBody ''Invalid challenge''), sab_example_server)
   \<and> fst (sab_post_verify sab_example_lib 1000000
            (sab_example_request\<lparr>sab_req_ip := ''198.51.100.9''\<rparr>) sab_example_server)
     \<noteq> Response 403 (ErrorBody ''Invalid challenge'')"
proof -
  note th = invalid_challenge_rejections
  have a: "srv_post_verify srv_example_lib 1000000
             (srv_example_request\<lparr>srv_req_ip := ''198.51.100.9''\<rparr>) srv_example_server
           = (Response 403 (ErrorBody ''Invalid challenge''), srv_example_server)"
    using th [THEN conjunct1, of 1000000 srv_example_server
                "srv_example_request\<lparr>srv_req_ip := ''198.51.100.9''\<rparr>" srv_example_lib]
    by (simp add: srv_example_request_def srv_example_server_def redis_get_def js_string_def)
  have b: "fst (srv_post_verify srv_example_lib 1060001 srv_example_request
                  (snd (srv_get_challenge example_challenge 1000000 srv_example_request
                          srv_example_server)))
           = Response 403 (ErrorBody ''Invalid challenge'')"
    using th [THEN conjunct2, THEN conjunct1, of srv_example_request example_challenge
                srv_example_request 1000000 1060001 srv_example_lib srv_example_server]
    by (simp add: srv_example_request_def)
  have c: "fst (srv_post_verify srv_example_lib 1000000 srv_example_request srv_example_server)
           \<noteq> Response 403 (ErrorBody ''Invalid challenge'')"
    using th [THEN conjunct2, THEN conjunct2, THEN conjunct1, of 1000000 srv_example_server
                srv_example_request srv_example_lib]
    by (simp add: srv_example_request_def srv_example_server_def redis_get_def js_string_def)
  have d: "sab_post_verify sab_example_lib 1000000
             (sab_example_request\<lparr>sab_body_challenge := Some ''0123''\<rparr>) sab_example_server
           = (Response 403 (ErrorBody ''Invalid challenge''), sab_example_server)"
    using th [THEN conjunct2, THEN conjunct2, THEN conjunct2, THEN conjunct1,
              of "sab_example_request\<lparr>sab_body_challenge := Some ''0123''\<rparr>"
                 sab_example_server sab_example_lib 1000000]
    by (simp add: sab_example_request_def sab_example_server_def example_challenge_def)
  have e: "fst (sab_post_verify sab_example_lib 1000000
                  (sab_example_request\<lparr>sab_req_ip := ''198.51.100.9''\<rparr>) sab_example_server)
           \<noteq> Response 403 (ErrorBody ''Invalid challenge'')"
    using th [THEN conjunct2, THEN conjunct2, THEN conjunct2, THEN conjunct2, THEN conjunct1,
              of "sab_example_request\<lparr>sab_req_ip := ''198.51.100.9''\<rparr>" example_challenge
                 sab_example_server 990000 sab_example_lib 1000000]
    by (simp add: sab_example_request_def sab_example_server_def)
  show ?thesis
    using a b c d e by simp
qed

end
